theory Spec2Isabelle
  imports Complex_Main "HOL-Library.Multiset"
begin

chapter \<open>Drawing detector: detection engine\<close>

text \<open>
  A shallow embedding of the detector modules of the drawing detector
  (\<^verbatim>\<open>redElements.js\<close>, \<^verbatim>\<open>highlights.js\<close>, \<^verbatim>\<open>noRefs.js\<close>,
  \<^verbatim>\<open>overlappingText.js\<close>, \<^verbatim>\<open>geotechPatterns.js\<close>, \<^verbatim>\<open>geotechExtractor.js\<close>,
  \<^verbatim>\<open>geotechVerification.js\<close>).

  Conventions.
  \<^item> Canvas coordinates, pixel counts and channel values are integers of the source well
    below \<open>2^53\<close>; they are modelled by \<open>int\<close> and \<open>nat\<close>, on which JavaScript arithmetic
    is exact.
  \<^item> A JavaScript object is a record; a property that some objects of a list carry and
    others do not is an \<open>option\<close> field (\<open>None\<close> is \<^verbatim>\<open>undefined\<close>).
  \<^item> A loop is a recursive function over the part of the array still to be visited.
\<close>

section \<open>Regions\<close>

text \<open>
  The detector output unit. The tracers return \<^verbatim>\<open>{x, y, width, height, pixelCount}\<close>
  (the black-ink tracer adds \<^verbatim>\<open>detectionMethod\<close> and \<^verbatim>\<open>isCanvasCoords\<close>), the
  PDF-text overlap method adds \<^verbatim>\<open>text1\<close> and \<^verbatim>\<open>text2\<close>, and the missing-reference
  analyzer returns boxes with \<^verbatim>\<open>text\<close> and no pixel count.
\<close>

record Box =
  x :: int
  y :: int
  width :: int
  height :: int

record Tagged = Box +
  detectionMethod :: "string option"
  isCanvasCoords :: "bool option"

record Region = Tagged +
  pixelCount :: int
  text1 :: "string option"
  text2 :: "string option"

record NoRefRegion = Tagged +
  text' :: string

text \<open>The object literal \<^verbatim>\<open>{x, y, width, height, pixelCount}\<close>.\<close>

definition plainRegion :: "int \<Rightarrow> int \<Rightarrow> int \<Rightarrow> int \<Rightarrow> int \<Rightarrow> Region" where
  "plainRegion px py w h n =
     \<lparr>x = px, y = py, width = w, height = h, detectionMethod = None, isCanvasCoords = None,
      pixelCount = n, text1 = None, text2 = None\<rparr>"

section \<open>Region merger\<close>

text \<open>
  \<^verbatim>\<open>mergeNearbyElements\<close> (red elements, distance 15), \<^verbatim>\<open>mergeNearbyHighlights\<close>
  (distance 20) and \<^verbatim>\<open>mergeNearbyRegions\<close> (overlapping text, distance 10) are the same
  code up to the constant \<^verbatim>\<open>mergeDistance\<close>, which is the parameter \<open>d\<close> here.
\<close>

definition horizontalDistance :: "Region \<Rightarrow> Region \<Rightarrow> int" where
  "horizontalDistance element other =
     max (max (x element - (x other + width other)) (x other - (x element + width element))) 0"

definition verticalDistance :: "Region \<Rightarrow> Region \<Rightarrow> int" where
  "verticalDistance element other =
     max (max (y element - (y other + height other)) (y other - (y element + height element))) 0"

text \<open>The test \<^verbatim>\<open>horizontalDistance <= mergeDistance && verticalDistance <= mergeDistance\<close>.\<close>

definition nearby :: "int \<Rightarrow> Region \<Rightarrow> Region \<Rightarrow> bool" where
  "nearby d element other =
     (horizontalDistance element other \<le> d \<and> verticalDistance element other \<le> d)"

text \<open>The union box with summed pixel count that replaces \<^verbatim>\<open>element\<close> on a merge.\<close>

definition mergeTwo :: "Region \<Rightarrow> Region \<Rightarrow> Region" where
  "mergeTwo element other =
     (let minX = min (x element) (x other);
          minY = min (y element) (y other);
          maxX = max (x element + width element) (x other + width other);
          maxY = max (y element + height element) (y other + height other)
      in plainRegion minX minY (maxX - minX) (maxY - minY)
           (pixelCount element + pixelCount other))"

text \<open>
  The inner loop \<^verbatim>\<open>for (j = i + 1; ...)\<close>: \<open>absorb d element rest\<close> walks the elements after
  index \<open>i\<close> that are not yet in \<^verbatim>\<open>processed\<close>, merges those near the (growing)
  \<^verbatim>\<open>element\<close>, and returns the final element, the elements left unprocessed (in
  order) and whether a merge happened.
\<close>

fun absorb :: "int \<Rightarrow> Region \<Rightarrow> Region list \<Rightarrow> Region \<times> Region list \<times> bool" where
  "absorb d element [] = (element, [], False)"
| "absorb d element (other # rest) =
     (if nearby d element other
      then (case absorb d (mergeTwo element other) rest of
              (e, left, _) \<Rightarrow> (e, left, True))
      else (case absorb d element rest of
              (e, left, m) \<Rightarrow> (e, other # left, m)))"

lemma absorb_length: "absorb d e rest = (e', left, m) \<Longrightarrow> length left \<le> length rest"
proof (induction rest arbitrary: e e' left m)
  case Nil
  then show ?case by simp
next
  case (Cons a rest)
  then show ?case
    by (fastforce split: if_splits prod.splits)
qed

text \<open>
  One iteration of the \<^verbatim>\<open>while (merged)\<close> body: the outer loop over \<open>i\<close>, skipping
  processed indices. The argument is the list of unprocessed elements from \<open>i\<close> on; the
  result is \<^verbatim>\<open>newElements\<close> and the flag \<^verbatim>\<open>merged\<close>.
\<close>

function mergePass :: "int \<Rightarrow> Region list \<Rightarrow> Region list \<times> bool" where
  "mergePass d [] = ([], False)"
| "mergePass d (element # rest) =
     (case absorb d element rest of
        (e, left, m) \<Rightarrow>
          (case mergePass d left of (new, m') \<Rightarrow> (e # new, m \<or> m')))"
  by pat_completeness auto
termination
  by (relation "measure (\<lambda>(d, es). length es)")
    (auto dest: absorb_length [OF sym] simp: less_Suc_eq_le)

lemma absorb_merged_length:
  "absorb d e rest = (e', left, True) \<Longrightarrow> length left < length rest"
proof (induction rest arbitrary: e e' left)
  case Nil
  then show ?case by simp
next
  case (Cons a rest)
  show ?case
  proof (cases "nearby d e a")
    case True
    then obtain m where "absorb d (mergeTwo e a) rest = (e', left, m)"
      using Cons.prems by (auto split: prod.splits)
    then have "length left \<le> length rest" by (rule absorb_length)
    then show ?thesis by simp
  next
    case False
    then obtain l where "absorb d e rest = (e', l, True)" and "left = a # l"
      using Cons.prems by (auto split: prod.splits)
    then show ?thesis using Cons.IH by auto
  qed
qed

lemma mergePass_length: "length (fst (mergePass d es)) \<le> length es"
proof (induction d es rule: mergePass.induct)
  case (1 d)
  then show ?case by simp
next
  case (2 d element rest)
  obtain e left m where a: "absorb d element rest = (e, left, m)"
    by (cases "absorb d element rest") auto
  obtain new m' where p: "mergePass d left = (new, m')"
    by (cases "mergePass d left") auto
  have "length new \<le> length left" using 2 a p by fastforce
  moreover have "length left \<le> length rest" using a by (rule absorb_length)
  ultimately show ?case using a p by simp
qed

lemma mergePass_merged_length:
  "snd (mergePass d es) \<Longrightarrow> length (fst (mergePass d es)) < length es"
proof (induction d es rule: mergePass.induct)
  case (1 d)
  then show ?case by simp
next
  case (2 d element rest)
  obtain e left m where a: "absorb d element rest = (e, left, m)"
    by (cases "absorb d element rest") auto
  obtain new m' where p: "mergePass d left = (new, m')"
    by (cases "mergePass d left") auto
  have ll: "length left \<le> length rest" using a by (rule absorb_length)
  have nl: "length new \<le> length left" using mergePass_length [of d left] p by simp
  from "2.prems" a p have "m \<or> m'" by simp
  then show ?case
  proof
    assume m
    with a have "absorb d element rest = (e, left, True)" by simp
    then have "length left < length rest" by (rule absorb_merged_length)
    then show ?thesis using a p nl by simp
  next
    assume m'
    then have "length new < length left" using "2.IH" a p by fastforce
    then show ?thesis using a p ll by simp
  qed
qed

text \<open>The loop \<^verbatim>\<open>while (merged) { ... currentElements = newElements }\<close>.\<close>

function mergeLoop :: "int \<Rightarrow> Region list \<Rightarrow> Region list" where
  "mergeLoop d currentElements =
     (case mergePass d currentElements of
        (newElements, merged) \<Rightarrow> if merged then mergeLoop d newElements else newElements)"
  by pat_completeness auto
termination
proof (relation "measure (\<lambda>(d, es). length es)")
  show "wf (measure (\<lambda>(d, es). length es))" by simp
next
  fix d :: int and currentElements newElements :: "Region list" and merged :: bool
  assume "(newElements, merged) = mergePass d currentElements" and merged
  then have "snd (mergePass d currentElements)"
    and "newElements = fst (mergePass d currentElements)"
    by (metis snd_conv, metis fst_conv)
  then show "((d, newElements), (d, currentElements)) \<in> measure (\<lambda>(d, es). length es)"
    using mergePass_merged_length by simp
qed

declare mergeLoop.simps [simp del]

definition mergeNearby :: "int \<Rightarrow> Region list \<Rightarrow> Region list" where
  "mergeNearby d elements = (if elements = [] then elements else mergeLoop d elements)"

definition mergeNearbyElements :: "Region list \<Rightarrow> Region list" where
  "mergeNearbyElements elements = mergeNearby 15 elements"

definition mergeNearbyHighlights :: "Region list \<Rightarrow> Region list" where
  "mergeNearbyHighlights elements = mergeNearby 20 elements"

definition mergeNearbyRegions :: "Region list \<Rightarrow> Region list" where
  "mergeNearbyRegions elements = mergeNearby 10 elements"

subsection \<open>The merger as multiset rewriting\<close>

text \<open>
  Every merge the loops perform replaces two boxes of the current collection that are
  near each other by their union box. The following lemmas show that this rewriting of
  multisets has the diamond property and therefore unique normal forms, and that the
  merger computes a normal form.
\<close>

lemma mergeTwo_commute: "mergeTwo a b = mergeTwo b a"
  by (simp add: mergeTwo_def plainRegion_def Let_def min.commute max.commute add.commute)

lemma mergeTwo_assoc: "mergeTwo (mergeTwo a b) c = mergeTwo a (mergeTwo b c)"
  by (simp add: mergeTwo_def plainRegion_def Let_def) (auto simp: min_def max_def)

lemma nearby_sym: "nearby d a b = nearby d b a"
  by (auto simp: nearby_def horizontalDistance_def verticalDistance_def)

lemma nearby_mergeTwo: "nearby d a c \<Longrightarrow> nearby d (mergeTwo a b) c"
  by (auto simp: nearby_def horizontalDistance_def verticalDistance_def mergeTwo_def plainRegion_def Let_def)

lemma nearby_mergeTwo2: "nearby d b c \<Longrightarrow> nearby d (mergeTwo a b) c"
  using nearby_mergeTwo [of d b c a] by (simp add: mergeTwo_commute)

inductive mstep :: "int \<Rightarrow> Region multiset \<Rightarrow> Region multiset \<Rightarrow> bool" where
  "nearby d a b \<Longrightarrow> mstep d (add_mset a (add_mset b M)) (add_mset (mergeTwo a b) M)"

lemma mstep_size: "mstep d M N \<Longrightarrow> size M = Suc (size N)"
  by (induction rule: mstep.induct) simp

lemma two_two:
  assumes "add_mset a (add_mset b K) = add_mset c (add_mset e L)"
  shows "(a = c \<and> b = e \<and> K = L) \<or> (a = e \<and> b = c \<and> K = L) \<or>
   (a = c \<and> (\<exists>N. K = add_mset e N \<and> L = add_mset b N)) \<or>
   (a = e \<and> (\<exists>N. K = add_mset c N \<and> L = add_mset b N)) \<or>
   (b = c \<and> (\<exists>N. K = add_mset e N \<and> L = add_mset a N)) \<or>
   (b = e \<and> (\<exists>N. K = add_mset c N \<and> L = add_mset a N)) \<or>
   (\<exists>N. K = add_mset c (add_mset e N) \<and> L = add_mset a (add_mset b N))"
proof -
  from assms have
    "(add_mset b K = add_mset e L \<and> a = c) \<or>
     (\<exists>Z. add_mset b K = add_mset c Z \<and> add_mset e L = add_mset a Z)"
    by (simp only: add_eq_conv_ex)
  then show ?thesis
  proof
    assume h: "add_mset b K = add_mset e L \<and> a = c"
    then have "(K = L \<and> b = e) \<or> (\<exists>Z. K = add_mset e Z \<and> L = add_mset b Z)"
      by (simp only: add_eq_conv_ex)
    with h show ?thesis by blast
  next
    assume "\<exists>Z. add_mset b K = add_mset c Z \<and> add_mset e L = add_mset a Z"
    then obtain Z where z1: "add_mset b K = add_mset c Z" and z2: "add_mset e L = add_mset a Z"
      by blast
    from z1 have k: "(K = Z \<and> b = c) \<or> (\<exists>W. K = add_mset c W \<and> Z = add_mset b W)"
      by (simp only: add_eq_conv_ex)
    from z2 have l: "(L = Z \<and> e = a) \<or> (\<exists>V. L = add_mset a V \<and> Z = add_mset e V)"
      by (simp only: add_eq_conv_ex)
    from k show ?thesis
    proof
      assume k1: "K = Z \<and> b = c"
      from l show ?thesis
      proof
        assume "L = Z \<and> e = a"
        with k1 show ?thesis by simp
      next
        assume "\<exists>V. L = add_mset a V \<and> Z = add_mset e V"
        with k1 show ?thesis by blast
      qed
    next
      assume "\<exists>W. K = add_mset c W \<and> Z = add_mset b W"
      then obtain W where w: "K = add_mset c W" "Z = add_mset b W" by blast
      from l show ?thesis
      proof
        assume "L = Z \<and> e = a"
        with w show ?thesis by blast
      next
        assume "\<exists>V. L = add_mset a V \<and> Z = add_mset e V"
        then obtain V where v: "L = add_mset a V" "Z = add_mset e V" by blast
        from w(2) v(2) have "add_mset b W = add_mset e V" by simp
        then have "(W = V \<and> b = e) \<or> (\<exists>U. W = add_mset e U \<and> V = add_mset b U)"
          by (simp only: add_eq_conv_ex)
        then show ?thesis
        proof
          assume "W = V \<and> b = e"
          with w(1) v(1) show ?thesis by blast
        next
          assume "\<exists>U. W = add_mset e U \<and> V = add_mset b U"
          then obtain U where "W = add_mset e U" "V = add_mset b U" by blast
          with w(1) v(1) show ?thesis by blast
        qed
      qed
    qed
  qed
qed

lemma mstep_share:
  assumes "nearby d a b" and "nearby d a c"
  shows "\<exists>M3. mstep d (add_mset (mergeTwo a b) (add_mset c K)) M3 \<and>
              mstep d (add_mset (mergeTwo a c) (add_mset b K)) M3"
proof -
  have 1: "mstep d (add_mset (mergeTwo a b) (add_mset c K)) (add_mset (mergeTwo (mergeTwo a b) c) K)"
    using assms(2) by (intro mstep.intros nearby_mergeTwo)
  have 2: "mstep d (add_mset (mergeTwo a c) (add_mset b K)) (add_mset (mergeTwo (mergeTwo a c) b) K)"
    using assms(1) by (intro mstep.intros nearby_mergeTwo)
  have "mergeTwo (mergeTwo a c) b = mergeTwo (mergeTwo a b) c"
    by (metis mergeTwo_assoc mergeTwo_commute)
  with 1 2 show ?thesis by auto
qed

lemma mstep_apart:
  assumes "nearby d a b" and "nearby d c e"
  shows "\<exists>M3. mstep d (add_mset (mergeTwo a b) (add_mset c (add_mset e K))) M3 \<and>
              mstep d (add_mset (mergeTwo c e) (add_mset a (add_mset b K))) M3"
proof -
  have "mstep d (add_mset c (add_mset e (add_mset (mergeTwo a b) K)))
          (add_mset (mergeTwo c e) (add_mset (mergeTwo a b) K))"
    using assms(2) by (rule mstep.intros)
  moreover have "mstep d (add_mset a (add_mset b (add_mset (mergeTwo c e) K)))
          (add_mset (mergeTwo a b) (add_mset (mergeTwo c e) K))"
    using assms(1) by (rule mstep.intros)
  ultimately show ?thesis
    by (metis add_mset_commute)
qed


lemma mstep_diamond:
  assumes "mstep d M M1" and "mstep d M M2"
  shows "M1 = M2 \<or> (\<exists>M3. mstep d M1 M3 \<and> mstep d M2 M3)"
proof -
  from assms(1) obtain a b K where
    M: "M = add_mset a (add_mset b K)" and M1: "M1 = add_mset (mergeTwo a b) K" and
    ab: "nearby d a b"
    by (auto elim: mstep.cases)
  from assms(2) obtain c e L where
    M': "M = add_mset c (add_mset e L)" and M2: "M2 = add_mset (mergeTwo c e) L" and
    ce: "nearby d c e"
    by (auto elim: mstep.cases)
  have ba: "nearby d b a" using ab by (simp add: nearby_sym)
  have ec: "nearby d e c" using ce by (simp add: nearby_sym)
  from M M' have "add_mset a (add_mset b K) = add_mset c (add_mset e L)" by simp
  from two_two [OF this] show ?thesis
  proof (elim disjE conjE exE)
    assume "a = c" "b = e" "K = L"
    then show ?thesis using M1 M2 by simp
  next
    assume "a = e" "b = c" "K = L"
    then show ?thesis using M1 M2 by (simp add: mergeTwo_commute)
  next
    fix N assume "a = c" "K = add_mset e N" "L = add_mset b N"
    then show ?thesis using M1 M2 mstep_share [OF ab, of e N] ce by simp
  next
    fix N assume "a = e" "K = add_mset c N" "L = add_mset b N"
    then show ?thesis
      using M1 M2 mstep_share [OF ab, of c N] ec by (simp add: mergeTwo_commute [of c])
  next
    fix N assume "b = c" "K = add_mset e N" "L = add_mset a N"
    then show ?thesis
      using M1 M2 mstep_share [OF ba, of e N] ce by (simp add: mergeTwo_commute [of a])
  next
    fix N assume "b = e" "K = add_mset c N" "L = add_mset a N"
    then show ?thesis
      using M1 M2 mstep_share [OF ba, of c N] ec
      by (simp add: mergeTwo_commute [of a] mergeTwo_commute [of c])
  next
    fix N assume "K = add_mset c (add_mset e N)" "L = add_mset a (add_mset b N)"
    then show ?thesis using M1 M2 mstep_apart [OF ab ce, of N] by simp
  qed
qed

definition mnormal :: "int \<Rightarrow> Region multiset \<Rightarrow> bool" where
  "mnormal d M = (\<forall>N. \<not> mstep d M N)"

lemma mstep_normal_form: "\<exists>N. (mstep d)\<^sup>*\<^sup>* M N \<and> mnormal d N"
proof (induction "size M" arbitrary: M rule: less_induct)
  case less
  show ?case
  proof (cases "mnormal d M")
    case True
    then show ?thesis by blast
  next
    case False
    then obtain M' where s: "mstep d M M'" by (auto simp: mnormal_def)
    then have "size M' < size M" by (simp add: mstep_size)
    then obtain N where "(mstep d)\<^sup>*\<^sup>* M' N" and "mnormal d N" using less by blast
    then show ?thesis using s by (blast intro: converse_rtranclp_into_rtranclp)
  qed
qed

lemma mnormal_rtranclp: "mnormal d M \<Longrightarrow> (mstep d)\<^sup>*\<^sup>* M N \<Longrightarrow> N = M"
  by (auto simp: mnormal_def elim: converse_rtranclpE)

lemma mstep_rtranclp_first:
  "(mstep d)\<^sup>*\<^sup>* M N \<Longrightarrow> \<not> mnormal d M \<Longrightarrow> mnormal d N \<Longrightarrow>
     \<exists>M'. mstep d M M' \<and> (mstep d)\<^sup>*\<^sup>* M' N"
  by (erule converse_rtranclpE) auto

lemma mstep_unique_normal_form:
  assumes "(mstep d)\<^sup>*\<^sup>* M N1" and "mnormal d N1" and "(mstep d)\<^sup>*\<^sup>* M N2" and "mnormal d N2"
  shows "N1 = N2"
  using assms
proof (induction "size M" arbitrary: M N1 N2 rule: less_induct)
  case less
  show ?case
  proof (cases "mnormal d M")
    case True
    then have "N1 = M" and "N2 = M"
      using less.prems(1,3) by (simp_all add: mnormal_rtranclp)
    then show ?thesis by simp
  next
    case False
    obtain M1 where s1: "mstep d M M1" and r1: "(mstep d)\<^sup>*\<^sup>* M1 N1"
      using mstep_rtranclp_first [OF less.prems(1) False less.prems(2)] by blast
    obtain M2 where s2: "mstep d M M2" and r2: "(mstep d)\<^sup>*\<^sup>* M2 N2"
      using mstep_rtranclp_first [OF less.prems(3) False less.prems(4)] by blast
    have z1: "size M1 < size M" using mstep_size [OF s1] by simp
    have z2: "size M2 < size M" using mstep_size [OF s2] by simp
    from mstep_diamond [OF s1 s2] show ?thesis
    proof
      assume "M1 = M2"
      then have "(mstep d)\<^sup>*\<^sup>* M1 N2" using r2 by simp
      then show ?thesis by (rule less.hyps [OF z1 r1 less.prems(2) _ less.prems(4)])
    next
      assume "\<exists>M3. mstep d M1 M3 \<and> mstep d M2 M3"
      then obtain M3 where t1: "mstep d M1 M3" and t2: "mstep d M2 M3" by blast
      obtain N3 where r3: "(mstep d)\<^sup>*\<^sup>* M3 N3" and n3: "mnormal d N3"
        using mstep_normal_form by blast
      have "(mstep d)\<^sup>*\<^sup>* M1 N3" using t1 r3 by (rule converse_rtranclp_into_rtranclp)
      then have "N1 = N3" by (rule less.hyps [OF z1 r1 less.prems(2) _ n3])
      moreover have "(mstep d)\<^sup>*\<^sup>* M2 N3" using t2 r3 by (rule converse_rtranclp_into_rtranclp)
      then have "N2 = N3" by (rule less.hyps [OF z2 r2 less.prems(4) _ n3])
      ultimately show ?thesis by simp
    qed
  qed
qed


text \<open>No box of the list is near a later one.\<close>

fun separated :: "int \<Rightarrow> Region list \<Rightarrow> bool" where
  "separated d [] = True"
| "separated d (e # es) = (list_all (\<lambda>a. \<not> nearby d e a) es \<and> separated d es)"

lemma mstep_add_mset: "mstep d M N \<Longrightarrow> mstep d (add_mset c M) (add_mset c N)"
proof (induction rule: mstep.induct)
  case (1 d a b M)
  have "mstep d (add_mset a (add_mset b (add_mset c M))) (add_mset (mergeTwo a b) (add_mset c M))"
    using 1 by (rule mstep.intros)
  then show ?case by (simp add: add_mset_commute [of c])
qed

lemma mstep_rtranclp_add_mset:
  "(mstep d)\<^sup>*\<^sup>* M N \<Longrightarrow> (mstep d)\<^sup>*\<^sup>* (add_mset c M) (add_mset c N)"
proof (induction rule: rtranclp_induct)
  case base
  then show ?case by simp
next
  case (step K N)
  then show ?case by (meson mstep_add_mset rtranclp.rtrancl_into_rtrancl)
qed

lemma absorb_steps:
  "absorb d e rest = (e', left, m) \<Longrightarrow>
     (mstep d)\<^sup>*\<^sup>* (add_mset e (mset rest)) (add_mset e' (mset left))"
proof (induction rest arbitrary: e e' left m)
  case Nil
  then show ?case by simp
next
  case (Cons a rest)
  show ?case
  proof (cases "nearby d e a")
    case True
    then obtain m' where r: "absorb d (mergeTwo e a) rest = (e', left, m')"
      using Cons.prems by (auto split: prod.splits)
    have "mstep d (add_mset e (add_mset a (mset rest))) (add_mset (mergeTwo e a) (mset rest))"
      using True by (rule mstep.intros)
    moreover have "(mstep d)\<^sup>*\<^sup>* (add_mset (mergeTwo e a) (mset rest)) (add_mset e' (mset left))"
      using r by (rule Cons.IH)
    ultimately show ?thesis by (simp add: converse_rtranclp_into_rtranclp)
  next
    case False
    then obtain l where r: "absorb d e rest = (e', l, m)" and l: "left = a # l"
      using Cons.prems by (auto split: prod.splits)
    have "(mstep d)\<^sup>*\<^sup>* (add_mset a (add_mset e (mset rest))) (add_mset a (add_mset e' (mset l)))"
      using Cons.IH [OF r] by (rule mstep_rtranclp_add_mset)
    then show ?thesis using l by (simp add: add_mset_commute [of a])
  qed
qed

lemma mergePass_steps: "(mstep d)\<^sup>*\<^sup>* (mset es) (mset (fst (mergePass d es)))"
proof (induction d es rule: mergePass.induct)
  case (1 d)
  then show ?case by simp
next
  case (2 d element rest)
  obtain e left m where a: "absorb d element rest = (e, left, m)"
    by (cases "absorb d element rest") auto
  obtain new m' where p: "mergePass d left = (new, m')"
    by (cases "mergePass d left") auto
  have "(mstep d)\<^sup>*\<^sup>* (mset left) (mset new)" using "2.IH" a p by fastforce
  then have "(mstep d)\<^sup>*\<^sup>* (add_mset e (mset left)) (add_mset e (mset new))"
    by (rule mstep_rtranclp_add_mset)
  with absorb_steps [OF a] have "(mstep d)\<^sup>*\<^sup>* (add_mset element (mset rest)) (add_mset e (mset new))"
    by (rule rtranclp_trans)
  then show ?case using a p by simp
qed

lemma mergeLoop_steps: "(mstep d)\<^sup>*\<^sup>* (mset es) (mset (mergeLoop d es))"
proof (induction d es rule: mergeLoop.induct)
  case (1 d currentElements)
  obtain new merged where p: "mergePass d currentElements = (new, merged)"
    by (cases "mergePass d currentElements") auto
  have s: "(mstep d)\<^sup>*\<^sup>* (mset currentElements) (mset new)"
    using mergePass_steps [of d currentElements] p by simp
  show ?case
  proof (cases merged)
    case True
    then have "(mstep d)\<^sup>*\<^sup>* (mset new) (mset (mergeLoop d new))"
      using "1.IH" p by fastforce
    with s have "(mstep d)\<^sup>*\<^sup>* (mset currentElements) (mset (mergeLoop d new))"
      by (rule rtranclp_trans)
    then show ?thesis using p True by (simp add: mergeLoop.simps [of d currentElements])
  next
    case False
    then show ?thesis using p s by (simp add: mergeLoop.simps [of d currentElements])
  qed
qed

lemma absorb_unmerged:
  "absorb d e rest = (e', left, False) \<Longrightarrow>
     e' = e \<and> left = rest \<and> list_all (\<lambda>a. \<not> nearby d e a) rest"
proof (induction rest arbitrary: left)
  case Nil
  then show ?case by simp
next
  case (Cons a rest)
  then show ?case by (auto split: if_splits prod.splits)
qed

lemma absorb_separate:
  "list_all (\<lambda>a. \<not> nearby d e a) rest \<Longrightarrow> absorb d e rest = (e, rest, False)"
  by (induction rest) auto

lemma mergePass_unmerged:
  "\<not> snd (mergePass d es) \<Longrightarrow> fst (mergePass d es) = es \<and> separated d es"
proof (induction d es rule: mergePass.induct)
  case (1 d)
  then show ?case by simp
next
  case (2 d element rest)
  obtain e left m where a: "absorb d element rest = (e, left, m)"
    by (cases "absorb d element rest") auto
  obtain new m' where p: "mergePass d left = (new, m')"
    by (cases "mergePass d left") auto
  from "2.prems" a p have m: "\<not> m" and m': "\<not> m'" by simp_all
  from a m have u: "e = element \<and> left = rest \<and> list_all (\<lambda>a. \<not> nearby d element a) rest"
    using absorb_unmerged [of d element rest e left] by simp
  have "fst (mergePass d left) = left \<and> separated d left"
    using "2.IH" a p m' by fastforce
  then show ?case using a p u by simp
qed

lemma mergePass_separated: "separated d es \<Longrightarrow> mergePass d es = (es, False)"
  by (induction es) (simp_all add: absorb_separate)

lemma mergeLoop_separated: "separated d (mergeLoop d es)"
proof (induction d es rule: mergeLoop.induct)
  case (1 d currentElements)
  obtain new merged where p: "mergePass d currentElements = (new, merged)"
    by (cases "mergePass d currentElements") auto
  show ?case
  proof (cases merged)
    case True
    then show ?thesis using "1.IH" p by (simp add: mergeLoop.simps [of d currentElements])
  next
    case False
    then have "fst (mergePass d currentElements) = currentElements \<and> separated d currentElements"
      using mergePass_unmerged [of d currentElements] p by simp
    then show ?thesis using p False by (simp add: mergeLoop.simps [of d currentElements])
  qed
qed

lemma mergeLoop_fixed: "separated d es \<Longrightarrow> mergeLoop d es = es"
  by (simp add: mergeLoop.simps [of d es] mergePass_separated)

lemma separated_no_pair:
  "separated d es \<Longrightarrow> mset es = add_mset a (add_mset b M) \<Longrightarrow> \<not> nearby d a b"
proof (induction es arbitrary: a b M)
  case Nil
  then show ?case by simp
next
  case (Cons e es)
  from Cons.prems(1) have far: "\<And>c. c \<in> set es \<Longrightarrow> \<not> nearby d e c" and sep: "separated d es"
    by (simp_all add: list_all_iff)
  from Cons.prems(2) have "add_mset e (mset es) = add_mset a (add_mset b M)" by simp
  then have "(mset es = add_mset b M \<and> e = a) \<or>
     (\<exists>Z. mset es = add_mset a Z \<and> add_mset b M = add_mset e Z)"
    by (simp only: add_eq_conv_ex)
  then show ?case
  proof
    assume h: "mset es = add_mset b M \<and> e = a"
    then have "b \<in># mset es" by simp
    then have "b \<in> set es" by simp
    then show ?thesis using far h by simp
  next
    assume "\<exists>Z. mset es = add_mset a Z \<and> add_mset b M = add_mset e Z"
    then obtain Z where z: "mset es = add_mset a Z" and z2: "add_mset b M = add_mset e Z" by blast
    from z have "a \<in># mset es" by simp
    then have ain: "a \<in> set es" by simp
    from z2 have "(M = Z \<and> b = e) \<or> (\<exists>W. M = add_mset e W \<and> Z = add_mset b W)"
      by (simp only: add_eq_conv_ex)
    then show ?thesis
    proof
      assume "M = Z \<and> b = e"
      then show ?thesis using far [OF ain] by (simp add: nearby_sym [of d a])
    next
      assume "\<exists>W. M = add_mset e W \<and> Z = add_mset b W"
      then obtain W where "Z = add_mset b W" by blast
      with z have "mset es = add_mset a (add_mset b W)" by simp
      then show ?thesis using Cons.IH sep by blast
    qed
  qed
qed

lemma separated_mnormal: "separated d es \<Longrightarrow> mnormal d (mset es)"
  unfolding mnormal_def
proof (intro allI notI)
  fix N assume s: "separated d es" and "mstep d (mset es) N"
  then obtain a b M where "mset es = add_mset a (add_mset b M)" and "nearby d a b"
    by (auto elim: mstep.cases)
  then show False using separated_no_pair [OF s] by blast
qed

lemma mergeLoop_mset_cong:
  assumes "mset es = mset fs"
  shows "mset (mergeLoop d es) = mset (mergeLoop d fs)"
proof (rule mstep_unique_normal_form)
  show "(mstep d)\<^sup>*\<^sup>* (mset es) (mset (mergeLoop d es))" by (rule mergeLoop_steps)
  show "mnormal d (mset (mergeLoop d es))" by (rule separated_mnormal [OF mergeLoop_separated])
  show "(mstep d)\<^sup>*\<^sup>* (mset es) (mset (mergeLoop d fs))"
    using mergeLoop_steps [of d fs] assms by simp
  show "mnormal d (mset (mergeLoop d fs))" by (rule separated_mnormal [OF mergeLoop_separated])
qed

lemma mergeNearby_mset_cong:
  "mset es = mset fs \<Longrightarrow> mset (mergeNearby d es) = mset (mergeNearby d fs)"
  using mergeLoop_mset_cong [of es fs d] by (auto simp: mergeNearby_def)

lemma mergeNearby_separated: "separated d (mergeNearby d es)"
  by (simp add: mergeNearby_def mergeLoop_separated)

lemma mergeNearby_idem: "mergeNearby d (mergeNearby d es) = mergeNearby d es"
  using mergeNearby_separated [of d es] by (simp add: mergeNearby_def [of d "mergeNearby d es"] mergeLoop_fixed)

lemma separated_nth:
  "separated d es \<Longrightarrow> i < j \<Longrightarrow> j < length es \<Longrightarrow> \<not> nearby d (es ! i) (es ! j)"
proof (induction es arbitrary: i j)
  case Nil
  then show ?case by simp
next
  case (Cons e es)
  from Cons.prems(1) have far: "\<And>c. c \<in> set es \<Longrightarrow> \<not> nearby d e c" and sep: "separated d es"
    by (simp_all add: list_all_iff)
  from Cons.prems(2,3) obtain j' where j: "j = Suc j'" and j': "j' < length es"
    by (cases j) auto
  show ?case
  proof (cases i)
    case 0
    then show ?thesis using far j j' by simp
  next
    case (Suc i')
    then show ?thesis using Cons.IH [OF sep, of i' j'] Cons.prems(2) j j' by simp
  qed
qed

lemma separated_apart:
  assumes "separated d es" and "i < length es" and "j < length es" and "i \<noteq> j"
  shows "\<not> nearby d (es ! i) (es ! j)"
proof (cases "i < j")
  case True
  then show ?thesis using assms separated_nth by blast
next
  case False
  then have "j < i" using assms(4) by simp
  then have "\<not> nearby d (es ! j) (es ! i)" using assms separated_nth by blast
  then show ?thesis by (simp add: nearby_sym)
qed

section \<open>Detection results\<close>

text \<open>
  The object \<^verbatim>\<open>{ detected, count, locations, message }\<close> every analyzer resolves to.
  The geotechnical verifier returns \<^verbatim>\<open>detected\<close>, \<^verbatim>\<open>count\<close> and \<^verbatim>\<open>message\<close> with other
  lists, so these three fields are the common part.
\<close>

record Verdict =
  detected :: bool
  count :: nat
  message :: string

record 'a DetectionResult = Verdict +
  locations :: "'a list"

text \<open>Decimal rendering of a non-negative integer in a template literal.\<close>

fun showNat :: "nat \<Rightarrow> string" where
  "showNat n =
     (if n < 10 then [''0123456789'' ! n]
      else showNat (n div 10) @ [''0123456789'' ! (n mod 10)])"

declare showNat.simps [simp del]

section \<open>Pixel buffers\<close>

text \<open>
  \<^verbatim>\<open>ImageData\<close>: an RGBA byte array with the canvas width and height. Reading the array
  outside its bounds gives \<^verbatim>\<open>undefined\<close>; every pixel predicate of the source compares
  each of \<^verbatim>\<open>r\<close>, \<^verbatim>\<open>g\<close>, \<^verbatim>\<open>b\<close> in every disjunct, and a comparison with \<^verbatim>\<open>undefined\<close>
  (or the \<^verbatim>\<open>NaN\<close> computed from it) is false, so a predicate is false as soon as one of
  the three channels is missing. \<open>rgbAt\<close> returns \<open>None\<close> in that case.
\<close>

record ImageData =
  data :: "nat list"
  imageWidth :: int
  imageHeight :: int

definition rgbAt :: "nat list \<Rightarrow> int \<Rightarrow> (nat \<times> nat \<times> nat) option" where
  "rgbAt dat idx =
     (if 0 \<le> idx \<and> nat idx + 2 < length dat
      then Some (dat ! nat idx, dat ! (nat idx + 1), dat ! (nat idx + 2))
      else None)"

definition holds :: "(nat \<times> nat \<times> nat \<Rightarrow> bool) \<Rightarrow> (nat \<times> nat \<times> nat) option \<Rightarrow> bool" where
  "holds P px = (case px of None \<Rightarrow> False | Some c \<Rightarrow> P c)"

text \<open>The index \<^verbatim>\<open>(y * width + x) * 4\<close> of a pixel.\<close>

definition pixelIndex :: "int \<Rightarrow> int \<Rightarrow> int \<Rightarrow> int" where
  "pixelIndex w px py = (py * w + px) * 4"

text \<open>
  The values of a loop variable \<^verbatim>\<open>for (v = from; v < to; v += step)\<close>, \<open>step > 0\<close>.
\<close>

definition loopRange :: "int \<Rightarrow> int \<Rightarrow> int \<Rightarrow> int list" where
  "loopRange from to step =
     map (\<lambda>i. from + int i * step) [0 ..< nat ((to - from + step - 1) div step)]"

text \<open>
  The points of a seed scan \<^verbatim>\<open>for (y = 0; y < height; y += sy) for (x = 0; x < width; x += sx)\<close>,
  in the order the loops visit them.
\<close>

definition scanPoints :: "int \<Rightarrow> int \<Rightarrow> int \<Rightarrow> int \<Rightarrow> (int \<times> int) list" where
  "scanPoints sx sy w h =
     concat (map (\<lambda>py. map (\<lambda>px. (px, py)) (loopRange 0 w sx)) (loopRange 0 h sy))"

text \<open>
  Channel values are integers in \<open>0..255\<close>. The source compares them with products by
  \<open>1.3\<close>, \<open>1.5\<close> and \<open>2\<close> and with quotients by \<open>3\<close>; on such integers the binary64
  result of each comparison is that of exact arithmetic (a product that is not an integer
  is at least \<open>0.1\<close> away from every integer), so the comparisons are stated over \<open>rat\<close>.
\<close>

definition isReddish :: "nat \<times> nat \<times> nat \<Rightarrow> bool" where
  "isReddish c =
     (case c of (r, g, b) \<Rightarrow>
        (r > 150 \<and> rat_of_nat r > rat_of_nat g * 1.3 \<and> rat_of_nat r > rat_of_nat b * 1.3) \<or>
        (r > 100 \<and> rat_of_nat r > rat_of_nat g * 1.5 \<and> rat_of_nat r > rat_of_nat b * 1.5 \<and> r > 50) \<or>
        (r > 80 \<and> r > g * 2 \<and> r > b * 2))"

definition isHighlight :: "nat \<times> nat \<times> nat \<Rightarrow> bool" where
  "isHighlight c =
     (case c of (r, g, b) \<Rightarrow>
        (let avg = rat_of_nat (r + g + b) / 3;
             maxDiff = max (max (\<bar>int r - int g\<bar>) (\<bar>int g - int b\<bar>)) (\<bar>int r - int b\<bar>);
             isGreyHighlight = (maxDiff < 40 \<and> avg > 120 \<and> avg < 180);
             isColorHighlight =
               ((r > 200 \<and> g > 200 \<and> b < 150) \<or>
                (r < 150 \<and> g > 200 \<and> b < 150) \<or>
                (r < 150 \<and> g < 150 \<and> b > 200) \<or>
                (r > 200 \<and> g < 150 \<and> b > 200))
         in isGreyHighlight \<or> isColorHighlight))"

definition isBlack :: "nat \<times> nat \<times> nat \<Rightarrow> bool" where
  "isBlack c = (case c of (r, g, b) \<Rightarrow> r < 80 \<and> g < 80 \<and> b < 80)"

section \<open>Region tracer\<close>

text \<open>
  \<^verbatim>\<open>traceElement\<close>, \<^verbatim>\<open>traceHighlightedArea\<close> and \<^verbatim>\<open>traceBlackRegion\<close> are the same
  breadth-first flood fill up to the pixel predicate and the pixel budget. The state of
  the \<^verbatim>\<open>while (queue.length > 0 && pixelCount < cap)\<close> loop is the queue, the shared
  \<^verbatim>\<open>visited\<close> set (keys \<^verbatim>\<open>`${x},${y}`\<close>, modelled by the pairs), the bounds and the count.
\<close>

record TraceState =
  queue :: "(int \<times> int) list"
  visited :: "(int \<times> int) set"
  minX :: int
  maxX :: int
  minY :: int
  maxY :: int
  traced :: nat

function traceLoop ::
  "(nat \<times> nat \<times> nat \<Rightarrow> bool) \<Rightarrow> nat \<Rightarrow> nat list \<Rightarrow> int \<Rightarrow> int \<Rightarrow> TraceState \<Rightarrow> TraceState" where
  "traceLoop P cap dat w h s =
     (case queue s of
        [] \<Rightarrow> s
      | p # q \<Rightarrow>
          if \<not> traced s < cap then s
          else if p \<in> visited s \<or> fst p < 0 \<or> fst p \<ge> w \<or> snd p < 0 \<or> snd p \<ge> h
          then traceLoop P cap dat w h (s\<lparr>queue := q\<rparr>)
          else if holds P (rgbAt dat (pixelIndex w (fst p) (snd p)))
          then traceLoop P cap dat w h
                 (s\<lparr>queue := q @ [(fst p + 1, snd p), (fst p - 1, snd p),
                                   (fst p, snd p + 1), (fst p, snd p - 1)],
                    visited := insert p (visited s),
                    minX := min (minX s) (fst p), maxX := max (maxX s) (fst p),
                    minY := min (minY s) (snd p), maxY := max (maxY s) (snd p),
                    traced := Suc (traced s)\<rparr>)
          else traceLoop P cap dat w h (s\<lparr>queue := q\<rparr>))"
  by pat_completeness auto
termination
  by (relation "measures [\<lambda>(P, cap, dat, w, h, s). cap - traced s,
                          \<lambda>(P, cap, dat, w, h, s). length (queue s)]") auto

declare traceLoop.simps [simp del]

definition traceStart :: "int \<Rightarrow> int \<Rightarrow> (int \<times> int) set \<Rightarrow> TraceState" where
  "traceStart startX startY vis =
     \<lparr>queue = [(startX, startY)], visited = vis, minX = startX, maxX = startX,
      minY = startY, maxY = startY, traced = 0\<rparr>"

text \<open>The returned box \<^verbatim>\<open>{x: minX, y: minY, width: maxX - minX, height: maxY - minY, pixelCount}\<close>.\<close>

definition tracedBox :: "TraceState \<Rightarrow> Region" where
  "tracedBox s = plainRegion (minX s) (minY s) (maxX s - minX s) (maxY s - minY s) (int (traced s))"

definition traceElement ::
  "nat list \<Rightarrow> int \<Rightarrow> int \<Rightarrow> int \<Rightarrow> int \<Rightarrow> (int \<times> int) set \<Rightarrow> Region \<times> (int \<times> int) set" where
  "traceElement dat w h startX startY vis =
     (let s = traceLoop isReddish 100000 dat w h (traceStart startX startY vis)
      in (tracedBox s, visited s))"

definition traceHighlightedArea ::
  "nat list \<Rightarrow> int \<Rightarrow> int \<Rightarrow> int \<Rightarrow> int \<Rightarrow> (int \<times> int) set \<Rightarrow> Region \<times> (int \<times> int) set" where
  "traceHighlightedArea dat w h startX startY vis =
     (let s = traceLoop isHighlight 100000 dat w h (traceStart startX startY vis)
      in (tracedBox s, visited s))"

definition traceBlackRegion ::
  "nat list \<Rightarrow> int \<Rightarrow> int \<Rightarrow> int \<Rightarrow> int \<Rightarrow> (int \<times> int) set \<Rightarrow> Region \<times> (int \<times> int) set" where
  "traceBlackRegion dat w h startX startY vis =
     (let s = traceLoop isBlack 10000 dat w h (traceStart startX startY vis)
      in ((tracedBox s)\<lparr>detectionMethod := Some ''pixel'', isCanvasCoords := Some True\<rparr>,
          visited s))"

section \<open>Red-element analyzer\<close>

text \<open>
  One iteration of the seed scan of \<^verbatim>\<open>findRedElementsWithProgress\<close>; the state is the
  list \<^verbatim>\<open>elements\<close> and the set \<^verbatim>\<open>visited\<close>.
\<close>

definition redSeed ::
  "nat list \<Rightarrow> int \<Rightarrow> int \<Rightarrow> int \<times> int \<Rightarrow> Region list \<times> (int \<times> int) set
     \<Rightarrow> Region list \<times> (int \<times> int) set" where
  "redSeed dat w h p st =
     (case st of (elements, vis) \<Rightarrow>
        if holds isReddish (rgbAt dat (pixelIndex w (fst p) (snd p))) \<and> p \<notin> vis
        then (case traceElement dat w h (fst p) (snd p) vis of
                (element, vis') \<Rightarrow>
                  (if pixelCount element > 50 then elements @ [element] else elements, vis'))
        else (elements, vis))"

text \<open>
  The progress callback is a notification whose result is not used; it is left out of
  the model.
\<close>

definition findRedElementsWithProgress :: "nat list \<Rightarrow> int \<Rightarrow> int \<Rightarrow> Region list" where
  "findRedElementsWithProgress dat w h =
     mergeNearbyElements (fst (fold (redSeed dat w h) (scanPoints 2 2 w h) ([], {})))"

text \<open>
  \<^verbatim>\<open>detectRedElements\<close>. Decoding the data URL is the browser's work: the argument is the
  decoded pixel buffer, or \<open>None\<close> when the image fails to load (\<^verbatim>\<open>img.onerror\<close>), in
  which case the promise is rejected.
\<close>

definition detectRedElements :: "ImageData option \<Rightarrow> string + Region DetectionResult" where
  "detectRedElements img =
     (case img of
        None \<Rightarrow> Inl ''Failed to load image for red elements detection''
      | Some pixels \<Rightarrow>
          (let elements = findRedElementsWithProgress (data pixels) (imageWidth pixels)
                            (imageHeight pixels)
           in Inr \<lparr>detected = length elements > 0,
                   count = length elements,
                   message = (if length elements > 0
                              then ''Found '' @ showNat (length elements) @ '' red element(s)''
                              else ''No red elements detected''),
                   locations = elements\<rparr>))"

section \<open>Quotients\<close>

text \<open>
  A JavaScript number is \<^verbatim>\<open>NaN\<close>, an infinity or a finite value. A quotient of two
  integers is \<^verbatim>\<open>NaN\<close> for \<open>0/0\<close> and infinite for a non-zero numerator over zero; every
  comparison with \<^verbatim>\<open>NaN\<close> is false. The quotients of the pixel analyzers (fill ratio,
  outline ratios, density, aspect ratio) are only compared with constants; for pixel
  counts and box sizes these comparisons agree with exact arithmetic, which \<open>jsDiv\<close> uses.
\<close>

datatype number = NaN | PosInf | NegInf | Fin rat

definition jsDiv :: "int \<Rightarrow> int \<Rightarrow> number" where
  "jsDiv a b =
     (if b \<noteq> 0 then Fin (rat_of_int a / rat_of_int b)
      else if a = 0 then NaN else if a > 0 then PosInf else NegInf)"

fun qLess :: "number \<Rightarrow> rat \<Rightarrow> bool" where
  "qLess NaN c = False"
| "qLess PosInf c = False"
| "qLess NegInf c = True"
| "qLess (Fin q) c = (q < c)"

fun qGreater :: "number \<Rightarrow> rat \<Rightarrow> bool" where
  "qGreater NaN c = False"
| "qGreater PosInf c = True"
| "qGreater NegInf c = False"
| "qGreater (Fin q) c = (q > c)"

section \<open>Highlight analyzer\<close>

text \<open>Number of sampled positions of a list whose pixel satisfies a predicate.\<close>

definition countPixels ::
  "(nat \<times> nat \<times> nat \<Rightarrow> bool) \<Rightarrow> nat list \<Rightarrow> int \<Rightarrow> (int \<times> int) list \<Rightarrow> int" where
  "countPixels P dat w ps =
     int (length (filter (\<lambda>p. holds P (rgbAt dat (pixelIndex w (fst p) (snd p)))) ps))"

text \<open>
  The bound \<^verbatim>\<open>v < a + size && v < limit\<close> of the sampling loops over a box.
\<close>

definition boxRange :: "int \<Rightarrow> int \<Rightarrow> int \<Rightarrow> int \<Rightarrow> int list" where
  "boxRange from extent limit step = loopRange from (min (from + extent) limit) step"

text \<open>
  The ratio \<^verbatim>\<open>samples > 0 ? blackPixels / samples : 0\<close> of an edge is compared with
  \<open>0.15\<close> only.
\<close>

definition edgeHasOutline :: "int \<Rightarrow> int \<Rightarrow> bool" where
  "edgeHasOutline blackPixels samples =
     (if samples > 0 then qGreater (jsDiv blackPixels samples) 0.15 else False)"

definition isRectangularOrTrapezoidal :: "nat list \<Rightarrow> int \<Rightarrow> int \<Rightarrow> Region \<Rightarrow> bool" where
  "isRectangularOrTrapezoidal dat w h area =
     (let ys = boxRange (y area) (height area) h 2;
          xs = boxRange (x area) (width area) w 2;
          greyPixelsInBox =
            countPixels isHighlight dat w (concat (map (\<lambda>py. map (\<lambda>px. (px, py)) xs) ys));
          sampledTotal = \<lceil>rat_of_int (width area) / 2\<rceil> * \<lceil>rat_of_int (height area) / 2\<rceil>;
          fillRatio = jsDiv greyPixelsInBox sampledTotal;
          totalArea = width area * height area
      in if totalArea < 1200 then False
         else
           (let outlineOffset = 2;
                topY = max 0 (y area - outlineOffset);
                topSamples = (if topY < h then int (length xs) else 0);
                topBlackPixels =
                  (if topY < h then countPixels isBlack dat w (map (\<lambda>px. (px, topY)) xs) else 0);
                bottomY = min (h - 1) (y area + height area + outlineOffset);
                bottomSamples = (if bottomY \<ge> 0 then int (length xs) else 0);
                bottomBlackPixels =
                  (if bottomY \<ge> 0 then countPixels isBlack dat w (map (\<lambda>px. (px, bottomY)) xs)
                   else 0);
                leftX = max 0 (x area - outlineOffset);
                leftSamples = (if leftX < w then int (length ys) else 0);
                leftBlackPixels =
                  (if leftX < w then countPixels isBlack dat w (map (\<lambda>py. (leftX, py)) ys) else 0);
                rightX = min (w - 1) (x area + width area + outlineOffset);
                rightSamples = (if rightX \<ge> 0 then int (length ys) else 0);
                rightBlackPixels =
                  (if rightX \<ge> 0 then countPixels isBlack dat w (map (\<lambda>py. (rightX, py)) ys)
                   else 0);
                edgesWithBlackOutline =
                  length (filter id
                    [edgeHasOutline topBlackPixels topSamples,
                     edgeHasOutline bottomBlackPixels bottomSamples,
                     edgeHasOutline leftBlackPixels leftSamples,
                     edgeHasOutline rightBlackPixels rightSamples]);
                aspectRatio = jsDiv (width area) (height area)
            in if edgesWithBlackOutline \<ge> 2 \<and> qLess aspectRatio 3.0 then False
               else qGreater fillRatio 0.48))"

definition highlightSeed ::
  "nat list \<Rightarrow> int \<Rightarrow> int \<Rightarrow> int \<times> int \<Rightarrow> Region list \<times> (int \<times> int) set
     \<Rightarrow> Region list \<times> (int \<times> int) set" where
  "highlightSeed dat w h p st =
     (case st of (elements, vis) \<Rightarrow>
        if holds isHighlight (rgbAt dat (pixelIndex w (fst p) (snd p))) \<and> p \<notin> vis
        then (case traceHighlightedArea dat w h (fst p) (snd p) vis of
                (element, vis') \<Rightarrow>
                  (let meetsSize =
                         (pixelCount element > 100 \<and>
                          ((width element > 15 \<and> height element > 5) \<or>
                           (width element > 5 \<and> height element > 15)))
                   in (if meetsSize \<and> isRectangularOrTrapezoidal dat w h element
                       then elements @ [element] else elements, vis')))
        else (elements, vis))"

definition findHighlightedTextWithProgress :: "nat list \<Rightarrow> int \<Rightarrow> int \<Rightarrow> Region list" where
  "findHighlightedTextWithProgress dat w h =
     mergeNearbyHighlights (fst (fold (highlightSeed dat w h) (scanPoints 1 1 w h) ([], {})))"

text \<open>
  \<^verbatim>\<open>detectHighlights\<close> has no \<^verbatim>\<open>onerror\<close> handler: when the image does not load the
  promise never settles, which is the result \<open>None\<close>.
\<close>

definition detectHighlights :: "ImageData option \<Rightarrow> Region DetectionResult option" where
  "detectHighlights img =
     (case img of
        None \<Rightarrow> None
      | Some pixels \<Rightarrow>
          (let elements = findHighlightedTextWithProgress (data pixels) (imageWidth pixels)
                            (imageHeight pixels)
           in Some \<lparr>detected = length elements > 0,
                    count = length elements,
                    message = (if length elements > 0
                               then ''Found '' @ showNat (length elements) @ '' highlighted area(s)''
                               else ''No highlights detected''),
                    locations = elements\<rparr>))"

section \<open>Overlapping text: pixel method\<close>

definition calculateDensity :: "nat list \<Rightarrow> int \<Rightarrow> int \<Rightarrow> Region \<Rightarrow> number" where
  "calculateDensity dat w h element =
     (let ps = concat (map (\<lambda>py. map (\<lambda>px. (px, py)) (boxRange (x element) (width element) w 1))
                        (boxRange (y element) (height element) h 1));
          blackCount = countPixels isBlack dat w ps;
          totalCount = int (length ps)
      in jsDiv blackCount totalCount)"

text \<open>
  The transitions of one sampled line: the state is (\<^verbatim>\<open>transitions\<close>, \<^verbatim>\<open>prevBlack\<close>).
\<close>

definition lineTransitions :: "nat list \<Rightarrow> int \<Rightarrow> int \<Rightarrow> int list \<Rightarrow> nat" where
  "lineTransitions dat w py xs =
     fst (fold (\<lambda>px (transitions, prevBlack).
                  (let black = holds isBlack (rgbAt dat (pixelIndex w px py))
                   in (if black \<noteq> prevBlack then Suc transitions else transitions, black)))
               xs (0, False))"

definition isOverlappingText :: "nat list \<Rightarrow> int \<Rightarrow> int \<Rightarrow> Region \<Rightarrow> bool" where
  "isOverlappingText dat w h element =
     (let density = calculateDensity dat w h element;
          aspectRatio = jsDiv (width element) (height element)
      in if qLess density 0.32 \<or> qGreater density 0.7 then False
         else if qLess aspectRatio 2.0 \<or> qGreater aspectRatio 15 then False
         else if height element < 10 \<or> height element > 35 then False
         else if width element < 30 then False
         else
           (let sampleLines = min 5 (height element);
                sampled =
                  map (\<lambda>i. \<lfloor>rat_of_int (y element)
                             + rat_of_int (height element * i) / rat_of_int sampleLines\<rfloor>)
                      (loopRange 0 sampleLines 1);
                linesWithVariation =
                  length (filter
                    (\<lambda>py. py < h \<and>
                       lineTransitions dat w py (boxRange (x element) (width element) w 2) \<ge> 6)
                    sampled)
            in linesWithVariation \<ge> 3))"

definition blackSeed ::
  "nat list \<Rightarrow> int \<Rightarrow> int \<Rightarrow> int \<times> int \<Rightarrow> Region list \<times> (int \<times> int) set
     \<Rightarrow> Region list \<times> (int \<times> int) set" where
  "blackSeed dat w h p st =
     (case st of (elements, vis) \<Rightarrow>
        if holds isBlack (rgbAt dat (pixelIndex w (fst p) (snd p))) \<and> p \<notin> vis
        then (case traceBlackRegion dat w h (fst p) (snd p) vis of
                (element, vis') \<Rightarrow>
                  (if isOverlappingText dat w h element then elements @ [element] else elements,
                   vis'))
        else (elements, vis))"

definition findOverlappingText :: "nat list \<Rightarrow> int \<Rightarrow> int \<Rightarrow> Region list" where
  "findOverlappingText dat w h =
     mergeNearbyRegions (fst (fold (blackSeed dat w h) (scanPoints 6 3 w h) ([], {})))"

section \<open>Strings\<close>

text \<open>
  A JavaScript string is modelled by a \<open>string\<close>, one \<open>char\<close> per code unit; the model
  covers text whose code units are below 256. Case mapping is that of the ASCII letters;
  other code units are left unchanged.
\<close>

definition isWhiteSpace :: "char \<Rightarrow> bool" where
  "isWhiteSpace c = ((of_char c :: nat) \<in> {9, 10, 11, 12, 13, 32, 160})"

definition trim :: "string \<Rightarrow> string" where
  "trim s = rev (dropWhile isWhiteSpace (rev (dropWhile isWhiteSpace s)))"

definition upperChar :: "char \<Rightarrow> char" where
  "upperChar c =
     (case map_of (zip ''abcdefghijklmnopqrstuvwxyz'' ''ABCDEFGHIJKLMNOPQRSTUVWXYZ'') c of
        Some u \<Rightarrow> u
      | None \<Rightarrow> c)"

definition lowerChar :: "char \<Rightarrow> char" where
  "lowerChar c =
     (case map_of (zip ''ABCDEFGHIJKLMNOPQRSTUVWXYZ'' ''abcdefghijklmnopqrstuvwxyz'') c of
        Some l \<Rightarrow> l
      | None \<Rightarrow> c)"

definition toUpperCase :: "string \<Rightarrow> string" where
  "toUpperCase s = map upperChar s"

definition toLowerCase :: "string \<Rightarrow> string" where
  "toLowerCase s = map lowerChar s"

definition startsWith :: "string \<Rightarrow> string \<Rightarrow> bool" where
  "startsWith s t = (take (length t) s = t)"

text \<open>\<^verbatim>\<open>s.includes(t)\<close>.\<close>

fun strIncludes :: "string \<Rightarrow> string \<Rightarrow> bool" where
  "strIncludes [] t = (t = [])"
| "strIncludes (c # cs) t = (startsWith (c # cs) t \<or> strIncludes cs t)"

text \<open>
  \<^verbatim>\<open>s.substring(a, b)\<close> for integer arguments: both are clamped to \<open>[0, length]\<close> and
  swapped when \<open>a > b\<close>.
\<close>

definition substring :: "string \<Rightarrow> int \<Rightarrow> int \<Rightarrow> string" where
  "substring s a b =
     (let n = int (length s);
          a' = min (max a 0) n;
          b' = min (max b 0) n;
          lo = nat (min a' b');
          hi = nat (max a' b')
      in take (hi - lo) (drop lo s))"

section \<open>Regular expressions\<close>

text \<open>
  The regular expressions of the source are values of \<open>rx\<close>, matched by a backtracking
  matcher that follows the ECMAScript semantics: \<open>rxMatch\<close> returns the end states of
  all ways to match at a position, in the order in which backtracking tries them, so the
  head of the list is the match the engine reports. A state is the index reached and the
  captures made (latest first).
\<close>

datatype rx =
    Chr char                            \<comment> \<open>a literal character\<close>
  | AnyChar                             \<comment> \<open>\<^verbatim>\<open>.\<close>\<close>
  | Class bool "(char \<times> char) list"     \<comment> \<open>\<^verbatim>\<open>[...]\<close> (\<open>True\<close>) or \<^verbatim>\<open>[^...]\<close> (\<open>False\<close>): ranges\<close>
  | Digit                               \<comment> \<open>\<^verbatim>\<open>\d\<close>\<close>
  | Space                               \<comment> \<open>\<^verbatim>\<open>\s\<close>\<close>
  | WordBoundary                        \<comment> \<open>\<^verbatim>\<open>\b\<close>\<close>
  | LineStart                           \<comment> \<open>\<^verbatim>\<open>^\<close>\<close>
  | LineEnd                             \<comment> \<open>\<^verbatim>\<open>$\<close>\<close>
  | Empty
  | Seq rx rx
  | Alt rx rx
  | Rep nat "nat option" bool rx        \<comment> \<open>\<^verbatim>\<open>{min,max}\<close>, greedy (\<open>True\<close>) or lazy\<close>
  | Group nat rx                        \<comment> \<open>capturing group number \<open>k\<close>\<close>

type_synonym rxState = "nat \<times> (nat \<times> string) list"

definition inRanges :: "(char \<times> char) list \<Rightarrow> char \<Rightarrow> bool" where
  "inRanges rs c =
     list_ex (\<lambda>r. (of_char (fst r) :: nat) \<le> of_char c \<and> (of_char c :: nat) \<le> of_char (snd r)) rs"

text \<open>
  With the \<^verbatim>\<open>i\<close> flag two characters match when their canonical (upper-case) forms are
  equal; for a class, when the character or one of its case variants is in a range.
\<close>

definition sameChar :: "bool \<Rightarrow> char \<Rightarrow> char \<Rightarrow> bool" where
  "sameChar ic a b = (if ic then upperChar a = upperChar b else a = b)"

definition inClass :: "bool \<Rightarrow> (char \<times> char) list \<Rightarrow> char \<Rightarrow> bool" where
  "inClass ic rs c =
     (inRanges rs c \<or> (ic \<and> (inRanges rs (upperChar c) \<or> inRanges rs (lowerChar c))))"

definition isLineTerminator :: "char \<Rightarrow> bool" where
  "isLineTerminator c = ((of_char c :: nat) \<in> {10, 13})"

definition isDigit :: "char \<Rightarrow> bool" where
  "isDigit c = (48 \<le> (of_char c :: nat) \<and> (of_char c :: nat) \<le> 57)"

definition isWordChar :: "char \<Rightarrow> bool" where
  "isWordChar c =
     (let n = (of_char c :: nat)
      in (48 \<le> n \<and> n \<le> 57) \<or> (65 \<le> n \<and> n \<le> 90) \<or> (97 \<le> n \<and> n \<le> 122) \<or> n = 95)"

definition wordAt :: "string \<Rightarrow> int \<Rightarrow> bool" where
  "wordAt s i = (0 \<le> i \<and> nat i < length s \<and> isWordChar (s ! nat i))"

text \<open>One character that satisfies \<open>P\<close> at the current index.\<close>

definition stepChar :: "string \<Rightarrow> (char \<Rightarrow> bool) \<Rightarrow> rxState \<Rightarrow> rxState list" where
  "stepChar s P st =
     (if fst st < length s \<and> P (s ! fst st) then [(Suc (fst st), snd st)] else [])"

text \<open>
  \<open>ic\<close> is the \<^verbatim>\<open>i\<close> flag. In a repetition, an iteration that matches the empty string
  once the minimum is reached is rejected, as in ECMAScript's RepeatMatcher.
\<close>

function rxMatch :: "bool \<Rightarrow> string \<Rightarrow> rx \<Rightarrow> rxState \<Rightarrow> rxState list" where
  "rxMatch ic s (Chr c) st = stepChar s (sameChar ic c) st"
| "rxMatch ic s AnyChar st = stepChar s (\<lambda>c. \<not> isLineTerminator c) st"
| "rxMatch ic s (Class pos rs) st = stepChar s (\<lambda>c. inClass ic rs c = pos) st"
| "rxMatch ic s Digit st = stepChar s isDigit st"
| "rxMatch ic s Space st = stepChar s isWhiteSpace st"
| "rxMatch ic s WordBoundary st =
     (if wordAt s (int (fst st) - 1) \<noteq> wordAt s (int (fst st)) then [st] else [])"
| "rxMatch ic s LineStart st = (if fst st = 0 then [st] else [])"
| "rxMatch ic s LineEnd st = (if fst st = length s then [st] else [])"
| "rxMatch ic s Empty st = [st]"
| "rxMatch ic s (Seq r1 r2) st = concat (map (rxMatch ic s r2) (rxMatch ic s r1 st))"
| "rxMatch ic s (Alt r1 r2) st = rxMatch ic s r1 st @ rxMatch ic s r2 st"
| "rxMatch ic s (Group k r) st =
     map (\<lambda>st'. (fst st', (k, take (fst st' - fst st) (drop (fst st) s)) # snd st'))
         (rxMatch ic s r st)"
| "rxMatch ic s (Rep mn mx greedy r) st =
     (let more =
            (if mx = Some 0 then []
             else concat (map
                    (\<lambda>st'. if fst st' \<le> length s \<and> (mn > 0 \<or> fst st < fst st')
                           then rxMatch ic s (Rep (mn - 1) (map_option (\<lambda>k. k - 1) mx) greedy r) st'
                           else [])
                    (rxMatch ic s r st)));
          stop = (if mn = 0 then [st] else [])
      in if greedy then more @ stop else stop @ more)"
  by pat_completeness auto
termination
  by (relation "measures [\<lambda>(ic, s, r, st). size r,
                          \<lambda>(ic, s, r, st). case r of Rep mn mx g r' \<Rightarrow> mn | _ \<Rightarrow> 0,
                          \<lambda>(ic, s, r, st). Suc (length s) - fst st]") auto

text \<open>
  \<^verbatim>\<open>RegExp.prototype.exec\<close> from \<open>lastIndex\<close> on: the start positions are tried from left
  to right. \<open>scanMatches\<close> is the iteration of \<^verbatim>\<open>matchAll\<close> for a global expression:
  after a match the search resumes at its end (one further after an empty match). A match
  is \<open>(index, end, captures)\<close>.
\<close>

type_synonym rxResult = "nat \<times> nat \<times> (nat \<times> string) list"

fun scanMatches :: "bool \<Rightarrow> rx \<Rightarrow> string \<Rightarrow> nat list \<Rightarrow> nat \<Rightarrow> rxResult list" where
  "scanMatches ic r s [] lastIndex = []"
| "scanMatches ic r s (p # ps) lastIndex =
     (if p < lastIndex then scanMatches ic r s ps lastIndex
      else (case rxMatch ic s r (p, []) of
              [] \<Rightarrow> scanMatches ic r s ps lastIndex
            | st # _ \<Rightarrow> (p, fst st, snd st) # scanMatches ic r s ps (max (fst st) (Suc p))))"

definition matchAll :: "bool \<Rightarrow> rx \<Rightarrow> string \<Rightarrow> rxResult list" where
  "matchAll ic r s = scanMatches ic r s [0 ..< Suc (length s)] 0"

text \<open>\<^verbatim>\<open>exec\<close> of an expression whose \<open>lastIndex\<close> is 0: the first match, if any.\<close>

definition rxExec :: "bool \<Rightarrow> rx \<Rightarrow> string \<Rightarrow> rxResult option" where
  "rxExec ic r s = (case matchAll ic r s of [] \<Rightarrow> None | m # _ \<Rightarrow> Some m)"

definition rxTest :: "bool \<Rightarrow> rx \<Rightarrow> string \<Rightarrow> bool" where
  "rxTest ic r s = (rxExec ic r s \<noteq> None)"

text \<open>The matched text \<^verbatim>\<open>match[0]\<close> and a capture \<^verbatim>\<open>match[k]\<close>.\<close>

definition matched :: "string \<Rightarrow> rxResult \<Rightarrow> string" where
  "matched s m = take (fst (snd m) - fst m) (drop (fst m) s)"

definition capture :: "rxResult \<Rightarrow> nat \<Rightarrow> string option" where
  "capture m k = map_of (snd (snd m)) k"

text \<open>Abbreviations for the quantifiers and for sequences.\<close>

definition Star :: "rx \<Rightarrow> rx" where "Star r = Rep 0 None True r"
definition Plus :: "rx \<Rightarrow> rx" where "Plus r = Rep 1 None True r"
definition Opt :: "rx \<Rightarrow> rx" where "Opt r = Rep 0 (Some 1) True r"
definition LazyStar :: "rx \<Rightarrow> rx" where "LazyStar r = Rep 0 None False r"
definition Between :: "nat \<Rightarrow> nat \<Rightarrow> rx \<Rightarrow> rx" where "Between a b r = Rep a (Some b) True r"

fun Seqs :: "rx list \<Rightarrow> rx" where
  "Seqs [] = Empty"
| "Seqs [r] = r"
| "Seqs (r # rs) = Seq r (Seqs rs)"

definition Str :: "string \<Rightarrow> rx" where
  "Str s = Seqs (map Chr s)"

section \<open>PDF text items\<close>

text \<open>
  A pdf.js text item has the string \<^verbatim>\<open>str\<close>, the six-entry array \<^verbatim>\<open>transform\<close> (entries 4
  and 5 are the position in PDF space) and \<^verbatim>\<open>width\<close> and \<^verbatim>\<open>height\<close> in PDF units; the
  viewport has its \<^verbatim>\<open>scale\<close> and six-entry \<^verbatim>\<open>transform\<close>. Field names that \<open>Box\<close> already
  uses are prefixed. PDF-space numbers are modelled by \<open>rat\<close> with exact arithmetic (the
  rounding of binary64 is not modelled here).
\<close>

record Matrix =
  m0 :: rat
  m1 :: rat
  m2 :: rat
  m3 :: rat
  m4 :: rat
  m5 :: rat

record TextItem =
  str :: string
  transform :: Matrix
  itemWidth :: rat
  itemHeight :: rat

record Viewport =
  scale :: rat
  viewportTransform :: Matrix

record PdfPage =
  textItems :: "TextItem list option"
  viewport :: Viewport

text \<open>The test \<^verbatim>\<open>pdfPage && pdfPage.textItems\<close>: the items, when both are present.\<close>

definition suppliedItems :: "PdfPage option \<Rightarrow> TextItem list option" where
  "suppliedItems pdfPage = (case pdfPage of None \<Rightarrow> None | Some p \<Rightarrow> textItems p)"

section \<open>Missing-reference analyzer\<close>

text \<open>\<^verbatim>\<open>/^-{1,4}\/-{1,4}[.,;:]?$/\<close>\<close>

definition noRefPattern :: rx where
  "noRefPattern =
     Seqs [LineStart, Between 1 4 (Chr CHR ''-''), Chr CHR ''/'', Between 1 4 (Chr CHR ''-''),
           Opt (Class True [(CHR ''.'', CHR ''.''), (CHR '','', CHR '',''),
                            (CHR '';'', CHR '';''), (CHR '':'', CHR '':'')]),
           LineEnd]"

text \<open>The region pushed for a matching item.\<close>

definition noRefRegion :: "Viewport \<Rightarrow> TextItem \<Rightarrow> NoRefRegion" where
  "noRefRegion vp item =
     (let pdfX = m4 (transform item);
          pdfY = m5 (transform item);
          canvasX = m0 (viewportTransform vp) * pdfX + m4 (viewportTransform vp);
          canvasY = m3 (viewportTransform vp) * pdfY + m5 (viewportTransform vp);
          w = \<lceil>itemWidth item * scale vp\<rceil>;
          h = \<lceil>itemHeight item * scale vp\<rceil>
      in \<lparr>x = \<lfloor>canvasX\<rfloor>, y = \<lfloor>canvasY\<rfloor> - h, width = w, height = h,
          detectionMethod = Some ''pdf-text'', isCanvasCoords = Some True,
          text' = trim (str item)\<rparr>)"

text \<open>The loop \<^verbatim>\<open>for (const item of pdfPage.textItems)\<close> with its accumulator \<^verbatim>\<open>noRefs\<close>.\<close>

fun noRefsLoop :: "Viewport \<Rightarrow> TextItem list \<Rightarrow> NoRefRegion list \<Rightarrow> NoRefRegion list" where
  "noRefsLoop vp [] noRefs = noRefs"
| "noRefsLoop vp (item # rest) noRefs =
     (if rxTest False noRefPattern (trim (str item))
      then noRefsLoop vp rest (noRefs @ [noRefRegion vp item])
      else noRefsLoop vp rest noRefs)"

definition detectNoRefsFromPDF :: "PdfPage option \<Rightarrow> NoRefRegion list" where
  "detectNoRefsFromPDF pdfPage =
     (case pdfPage of
        None \<Rightarrow> []
      | Some p \<Rightarrow> (case textItems p of None \<Rightarrow> [] | Some items \<Rightarrow> noRefsLoop (viewport p) items []))"

text \<open>\<^verbatim>\<open>detectNoRefs(imageData, onProgress, pdfPage)\<close>; the image is not used.\<close>

definition detectNoRefs :: "PdfPage option \<Rightarrow> NoRefRegion DetectionResult" where
  "detectNoRefs pdfPage =
     (let elements = (if suppliedItems pdfPage \<noteq> None then detectNoRefsFromPDF pdfPage else [])
      in \<lparr>detected = length elements > 0,
          count = length elements,
          message = (if length elements > 0
                     then ''Found '' @ showNat (length elements) @ '' missing reference(s) (-/---)''
                     else ''No missing references detected''),
          locations = elements\<rparr>)"

section \<open>Overlapping text: PDF-text method\<close>

text \<open>\<^verbatim>\<open>/[a-zA-Z0-9]/\<close> and \<^verbatim>\<open>/^\d{3}[A-Z]{1,2}\d{3}$/i\<close>\<close>

definition alphanumericPattern :: rx where
  "alphanumericPattern =
     Class True [(CHR ''a'', CHR ''z''), (CHR ''A'', CHR ''Z''), (CHR ''0'', CHR ''9'')]"

definition standalonePattern :: rx where
  "standalonePattern =
     Seqs [LineStart, Between 3 3 Digit, Between 1 2 (Class True [(CHR ''A'', CHR ''Z'')]),
           Between 3 3 Digit, LineEnd]"

definition isLikelyText :: "TextItem \<Rightarrow> bool" where
  "isLikelyText item =
     (let t = trim (str item)
      in if t = [] then False
         else if length t = 1 \<and> \<not> rxTest False alphanumericPattern t then False
         else if itemHeight item < 4 \<or> itemWidth item < 4 then False
         else if \<bar>m0 (transform item)\<bar> < 4 then False
         else True)"

definition isStandaloneDetailReference :: "string \<Rightarrow> bool" where
  "isStandaloneDetailReference t = rxTest True standalonePattern t"

record Bubble =
  bubbleX :: rat
  bubbleY :: rat
  bubbleWidth :: rat
  bubbleHeight :: rat
  centerX :: rat
  centerY :: rat
  radius :: rat

definition bubbleRegion :: "TextItem \<Rightarrow> Bubble" where
  "bubbleRegion item =
     (let px = m4 (transform item);
          py = m5 (transform item);
          w = itemWidth item;
          h = itemHeight item;
          padding = max w h * 0.5
      in \<lparr>bubbleX = px - padding,
          bubbleY = py - h * 2,
          bubbleWidth = w + padding * 2,
          bubbleHeight = h * 3,
          centerX = px + w / 2,
          centerY = py - h * 0.5,
          radius = max w (h * 2)\<rparr>)"

fun findCalloutBubblesLoop :: "TextItem list \<Rightarrow> Bubble list \<Rightarrow> Bubble list" where
  "findCalloutBubblesLoop [] bubbles = bubbles"
| "findCalloutBubblesLoop (item # rest) bubbles =
     (if isStandaloneDetailReference (trim (str item))
      then findCalloutBubblesLoop rest (bubbles @ [bubbleRegion item])
      else findCalloutBubblesLoop rest bubbles)"

definition findCalloutBubbles :: "TextItem list \<Rightarrow> Bubble list" where
  "findCalloutBubbles items = findCalloutBubblesLoop items []"

text \<open>
  The center of the box is inside the bounding box of the bubble (first test of the loop
  body).
\<close>

definition centerInBubbleBox :: "rat \<Rightarrow> rat \<Rightarrow> Bubble \<Rightarrow> bool" where
  "centerInBubbleBox cx cy bubble =
     (cx \<ge> bubbleX bubble \<and> cx \<le> bubbleX bubble + bubbleWidth bubble \<and>
      cy \<ge> bubbleY bubble \<and> cy \<le> bubbleY bubble + bubbleHeight bubble)"

text \<open>
  The second test \<^verbatim>\<open>Math.sqrt(dx * dx + dy * dy) < bubble.radius\<close>; over exact numbers the
  root is below the radius when the radius is positive and the square is below its
  square.
\<close>

definition centerInBubbleCircle :: "rat \<Rightarrow> rat \<Rightarrow> Bubble \<Rightarrow> bool" where
  "centerInBubbleCircle cx cy bubble =
     (let dx = cx - centerX bubble; dy = cy - centerY bubble
      in radius bubble > 0 \<and> dx * dx + dy * dy < radius bubble * radius bubble)"

fun isInsideBubble :: "rat \<Rightarrow> rat \<Rightarrow> rat \<Rightarrow> rat \<Rightarrow> Bubble list \<Rightarrow> bool" where
  "isInsideBubble px py w h [] = False"
| "isInsideBubble px py w h (bubble # bubbles) =
     (if centerInBubbleBox (px + w / 2) (py + h / 2) bubble then True
      else if centerInBubbleCircle (px + w / 2) (py + h / 2) bubble then True
      else isInsideBubble px py w h bubbles)"

definition itemInsideBubble :: "Bubble list \<Rightarrow> TextItem \<Rightarrow> bool" where
  "itemInsideBubble bubbles item =
     isInsideBubble (m4 (transform item)) (m5 (transform item)) (itemWidth item)
       (itemHeight item) bubbles"

definition isFalsePositiveOverlap :: "TextItem \<Rightarrow> TextItem \<Rightarrow> bool" where
  "isFalsePositiveOverlap item1 item2 =
     (length (trim (str item1)) \<le> 2 \<and> length (trim (str item2)) \<le> 2)"

text \<open>
  The body of the inner loop after the three \<^verbatim>\<open>continue\<close> tests: the overlap region of a
  pair, when the boxes overlap on both axes by more than 5 PDF units.
\<close>

definition overlapOfPair :: "Viewport \<Rightarrow> TextItem \<Rightarrow> TextItem \<Rightarrow> Region option" where
  "overlapOfPair vp item1 item2 =
     (let x1 = m4 (transform item1); y1 = m5 (transform item1);
          w1 = itemWidth item1; h1 = itemHeight item1;
          x2 = m4 (transform item2); y2 = m5 (transform item2);
          w2 = itemWidth item2; h2 = itemHeight item2;
          horizontalOverlap = (\<not> (x1 + w1 < x2 \<or> x2 + w2 < x1));
          verticalOverlap = (\<not> (y1 + h1 < y2 \<or> y2 + h2 < y1))
      in if horizontalOverlap \<and> verticalOverlap
         then
           (let overlapX = max x1 x2;
                overlapY = max y1 y2;
                overlapWidth = min (x1 + w1) (x2 + w2) - overlapX;
                overlapHeight = min (y1 + h1) (y2 + h2) - overlapY
            in if overlapWidth > 5 \<and> overlapHeight > 5
               then
                 (let canvasX = m0 (viewportTransform vp) * overlapX + m4 (viewportTransform vp);
                      canvasY = m3 (viewportTransform vp) * overlapY + m5 (viewportTransform vp);
                      scaledHeight = \<lceil>overlapHeight * scale vp\<rceil>
                  in Some \<lparr>x = \<lfloor>canvasX\<rfloor>, y = \<lfloor>canvasY\<rfloor> - scaledHeight,
                           width = \<lceil>overlapWidth * scale vp\<rceil>, height = scaledHeight,
                           detectionMethod = Some ''pdf-text'', isCanvasCoords = Some True,
                           pixelCount = \<lceil>overlapWidth * overlapHeight * scale vp * scale vp\<rceil>,
                           text1 = Some (str item1), text2 = Some (str item2)\<rparr>)
               else None)
         else None)"

text \<open>The inner loop over \<open>j > i\<close> and the outer loop over \<open>i\<close>.\<close>

fun overlapsInner ::
  "Viewport \<Rightarrow> Bubble list \<Rightarrow> TextItem \<Rightarrow> TextItem list \<Rightarrow> Region list \<Rightarrow> Region list" where
  "overlapsInner vp bubbles item1 [] overlaps = overlaps"
| "overlapsInner vp bubbles item1 (item2 # rest) overlaps =
     (if itemInsideBubble bubbles item2 then overlapsInner vp bubbles item1 rest overlaps
      else if isFalsePositiveOverlap item1 item2 then overlapsInner vp bubbles item1 rest overlaps
      else (case overlapOfPair vp item1 item2 of
              Some r \<Rightarrow> overlapsInner vp bubbles item1 rest (overlaps @ [r])
            | None \<Rightarrow> overlapsInner vp bubbles item1 rest overlaps))"

fun overlapsOuter :: "Viewport \<Rightarrow> Bubble list \<Rightarrow> TextItem list \<Rightarrow> Region list \<Rightarrow> Region list" where
  "overlapsOuter vp bubbles [] overlaps = overlaps"
| "overlapsOuter vp bubbles (item1 # rest) overlaps =
     (if itemInsideBubble bubbles item1 then overlapsOuter vp bubbles rest overlaps
      else overlapsOuter vp bubbles rest (overlapsInner vp bubbles item1 rest overlaps))"

definition detectOverlapsFromPDF :: "PdfPage option \<Rightarrow> Region list" where
  "detectOverlapsFromPDF pdfPage =
     (case pdfPage of
        None \<Rightarrow> []
      | Some p \<Rightarrow>
          (case textItems p of
             None \<Rightarrow> []
           | Some items \<Rightarrow>
               overlapsOuter (viewport p) (findCalloutBubbles items) (filter isLikelyText items) []))"

section \<open>Overlapping-text analyzer\<close>

text \<open>
  \<^verbatim>\<open>detectOverlappingText(imageData, onProgress, pdfPage)\<close>: both methods, results joined.
  (The two branches on \<^verbatim>\<open>hasTextInfo\<close> build the same message.)
\<close>

definition detectOverlappingText :: "ImageData \<Rightarrow> PdfPage option \<Rightarrow> Region DetectionResult" where
  "detectOverlappingText imageData pdfPage =
     (let pdfElements = (if suppliedItems pdfPage \<noteq> None then detectOverlapsFromPDF pdfPage else []);
          pixelElements =
            findOverlappingText (data imageData) (imageWidth imageData) (imageHeight imageData);
          allElements = pdfElements @ pixelElements
      in \<lparr>detected = length allElements > 0,
          count = length allElements,
          message =
            (if length allElements > 0
             then ''Found '' @ showNat (length allElements) @ '' overlapping text region(s) (''
                    @ showNat (length pdfElements) @ '' PDF, ''
                    @ showNat (length pixelElements) @ '' pixel)''
             else ''No overlapping text detected''),
          locations = allElements\<rparr>)"

section \<open>Lemmas about the text analyzers\<close>

text \<open>The definitions that evaluate a regular expression on a literal string.\<close>

lemmas rx_eval = Between_def Opt_def Star_def Plus_def LazyStar_def Str_def
  rxTest_def rxExec_def matchAll_def stepChar_def sameChar_def inClass_def inRanges_def
  isWhiteSpace_def isDigit_def isWordChar_def wordAt_def isLineTerminator_def upperChar_def
  lowerChar_def trim_def
















section \<open>Example inputs\<close>

text \<open>
  A viewport of scale 3 for a page 792 units high, text items with their position and
  size, and a one-pixel image; the lemmas evaluate the analyzers on them.
\<close>

definition exampleViewport :: Viewport where
  "exampleViewport =
     \<lparr>scale = 3, viewportTransform = \<lparr>m0 = 3, m1 = 0, m2 = 0, m3 = -3, m4 = 0, m5 = 2376\<rparr>\<rparr>"

definition exampleItem :: "string \<Rightarrow> rat \<Rightarrow> rat \<Rightarrow> rat \<Rightarrow> rat \<Rightarrow> TextItem" where
  "exampleItem s px py w h =
     \<lparr>str = s, transform = \<lparr>m0 = h, m1 = 0, m2 = 0, m3 = h, m4 = px, m5 = py\<rparr>,
      itemWidth = w, itemHeight = h\<rparr>"

definition bubblePage :: PdfPage where
  "bubblePage =
     \<lparr>textItems = Some [exampleItem ''3'' 100 102 6 10, exampleItem ''630SX001'' 90 100 40 10,
                        exampleItem ''NOTE A1'' 300 500 40 10, exampleItem ''SEE PLAN'' 320 504 40 10],
      viewport = exampleViewport\<rparr>"

definition noRefPage :: PdfPage where
  "noRefPage =
     \<lparr>textItems = Some [exampleItem '' -/--- '' 100.5 700.25 20.2 8, exampleItem ''A/101'' 10 10 20 8,
                        exampleItem ''--/----.'' 50 60 30 8, exampleItem ''-/-'' 0 0 12 8,
                        exampleItem [CHR ''-'', CHR 0x5C, CHR ''-''] 5 5 12 8],
      viewport = exampleViewport\<rparr>"

definition redPixel :: ImageData where
  "redPixel = \<lparr>data = [255, 0, 0, 255], imageWidth = 1, imageHeight = 1\<rparr>"

lemmas region_eval = exampleViewport_def exampleItem_def bubblePage_def noRefPage_def redPixel_def

lemma example_noRefs: "detectNoRefsFromPDF (Some noRefPage) =
   [\<lparr>x = 301, y = 251, width = 61, height = 24, detectionMethod = Some ''pdf-text'',
      isCanvasCoords = Some True, text' = ''-/---''\<rparr>,
    \<lparr>x = 150, y = 2172, width = 90, height = 24, detectionMethod = Some ''pdf-text'',
      isCanvasCoords = Some True, text' = ''--/----.''\<rparr>,
    \<lparr>x = 0, y = 2352, width = 36, height = 24, detectionMethod = Some ''pdf-text'',
      isCanvasCoords = Some True, text' = ''-/-''\<rparr>]"
  by (simp add: detectNoRefsFromPDF_def region_eval noRefPattern_def rx_eval noRefRegion_def
      floor_unique ceiling_unique)

lemma example_overlaps: "detectOverlapsFromPDF (Some bubblePage) =
   [\<lparr>x = 960, y = 846, width = 60, height = 18, detectionMethod = Some ''pdf-text'',
      isCanvasCoords = Some True, pixelCount = 1080, text1 = Some ''NOTE A1'', text2 = Some ''SEE PLAN''\<rparr>]"
  by (simp add: detectOverlapsFromPDF_def region_eval rx_eval isLikelyText_def alphanumericPattern_def
      findCalloutBubbles_def isStandaloneDetailReference_def standalonePattern_def bubbleRegion_def
      itemInsideBubble_def centerInBubbleBox_def centerInBubbleCircle_def isFalsePositiveOverlap_def
      overlapOfPair_def)

lemma example_pixel_overlaps: "findOverlappingText (data redPixel) (imageWidth redPixel) (imageHeight redPixel) = []"
  by (simp add: findOverlappingText_def region_eval scanPoints_def loopRange_def blackSeed_def
      holds_def rgbAt_def pixelIndex_def isBlack_def mergeNearbyRegions_def mergeNearby_def)

lemma example_red: "findRedElementsWithProgress (data redPixel) (imageWidth redPixel) (imageHeight redPixel) = []"
  by (simp add: findRedElementsWithProgress_def region_eval scanPoints_def loopRange_def redSeed_def
      holds_def rgbAt_def pixelIndex_def isReddish_def mergeNearbyElements_def mergeNearby_def
      traceElement_def traceLoop.simps traceStart_def tracedBox_def plainRegion_def)

lemma example_highlights: "findHighlightedTextWithProgress (data redPixel) (imageWidth redPixel) (imageHeight redPixel) = []"
  by (simp add: findHighlightedTextWithProgress_def region_eval scanPoints_def loopRange_def highlightSeed_def
      holds_def rgbAt_def pixelIndex_def isHighlight_def mergeNearbyHighlights_def mergeNearby_def)

section \<open>Binary64 numbers\<close>

text \<open>
  The geotechnical comparison parses decimal strings, subtracts and compares with a
  tolerance; its outcome at the tolerance depends on the rounding of binary64, so here
  the rounding is modelled: a finite number is the rational it denotes, and
  \<open>roundToDouble\<close> rounds a rational to the nearest binary64 value, ties to even, with
  gradual underflow and overflow to infinity. Negative zero is not distinguished from
  zero (it prints and compares like zero).
\<close>

definition pow2 :: "int \<Rightarrow> rat" where
  "pow2 k = (if k \<ge> 0 then 2 ^ nat k else 1 / 2 ^ nat (- k))"

definition pow10 :: "int \<Rightarrow> rat" where
  "pow10 k = (if k \<ge> 0 then 10 ^ nat k else 1 / 10 ^ nat (- k))"

text \<open>The number of digits of a positive integer in base \<open>b\<close>.\<close>

function digitCount :: "int \<Rightarrow> int \<Rightarrow> nat" where
  "digitCount b k = (if k \<le> 0 \<or> b < 2 then 0 else Suc (digitCount b (k div b)))"
  by pat_completeness auto
termination
  by (relation "measure (\<lambda>(b, k). nat k)") (auto simp: zdiv_mono2 intro!: int_div_less_self)

declare digitCount.simps [simp del]

text \<open>
  \<open>magnitude b a\<close> is the integer \<open>e\<close> with \<open>b^e \<le> a < b^(e+1)\<close> for a positive rational
  \<open>a\<close> and \<open>b\<close> 2 or 10: the quotient of a \<open>m\<close>-digit by an \<open>n\<close>-digit integer lies between
  \<open>b^(m-n-1)\<close> and \<open>b^(m-n+1)\<close>.
\<close>

definition magnitude :: "int \<Rightarrow> rat \<Rightarrow> int" where
  "magnitude b a =
     (case quotient_of a of
        (p, q) \<Rightarrow>
          (let k = int (digitCount b p) - int (digitCount b q);
               bk = (if k \<ge> 0 then rat_of_int b ^ nat k else 1 / rat_of_int b ^ nat (- k))
           in if bk \<le> a then k else k - 1))"

definition roundHalfEven :: "rat \<Rightarrow> int" where
  "roundHalfEven m =
     (let f = \<lfloor>m\<rfloor>; d = m - rat_of_int f
      in if d < 1 / 2 then f else if d > 1 / 2 then f + 1 else if even f then f else f + 1)"

text \<open>
  The binary64 value nearest to a rational: 53 significant bits, exponent at least
  \<open>-1022\<close> (below it the spacing stays \<open>2^-1074\<close>), infinity from \<open>2^1024\<close> on.
\<close>

definition roundToDouble :: "rat \<Rightarrow> number" where
  "roundToDouble v =
     (if v = 0 then Fin 0
      else
        (let a = \<bar>v\<bar>;
             e = max (magnitude 2 a) (- 1022);
             ulp = pow2 (e - 52);
             significand = roundHalfEven (a / ulp);
             overflow = (e > 1023 \<or> (e = 1023 \<and> significand = 2 ^ 53))
         in if overflow then (if v > 0 then PosInf else NegInf)
            else Fin (if v > 0 then rat_of_int significand * ulp
                      else - (rat_of_int significand * ulp))))"

text \<open>Subtraction, absolute value and \<^verbatim>\<open><=\<close> of numbers.\<close>

fun numSub :: "number \<Rightarrow> number \<Rightarrow> number" where
  "numSub (Fin a) (Fin b) = roundToDouble (a - b)"
| "numSub NaN _ = NaN"
| "numSub _ NaN = NaN"
| "numSub PosInf PosInf = NaN"
| "numSub NegInf NegInf = NaN"
| "numSub PosInf _ = PosInf"
| "numSub NegInf _ = NegInf"
| "numSub (Fin a) PosInf = NegInf"
| "numSub (Fin a) NegInf = PosInf"

fun numAbs :: "number \<Rightarrow> number" where
  "numAbs (Fin a) = Fin \<bar>a\<bar>"
| "numAbs NaN = NaN"
| "numAbs PosInf = PosInf"
| "numAbs NegInf = PosInf"

fun numLessEq :: "number \<Rightarrow> number \<Rightarrow> bool" where
  "numLessEq (Fin a) (Fin b) = (a \<le> b)"
| "numLessEq NaN _ = False"
| "numLessEq _ NaN = False"
| "numLessEq NegInf _ = True"
| "numLessEq _ PosInf = True"
| "numLessEq PosInf _ = False"
| "numLessEq (Fin a) NegInf = False"

text \<open>A numeric literal of the source text, such as \<^verbatim>\<open>0.005\<close>.\<close>

definition literal :: "rat \<Rightarrow> number" where
  "literal q = roundToDouble q"

subsection \<open>\<^verbatim>\<open>parseFloat\<close>\<close>

definition decimalValue :: "string \<Rightarrow> int" where
  "decimalValue ds = foldl (\<lambda>a c. 10 * a + (int (of_char c) - 48)) 0 ds"

text \<open>
  The exponent part \<^verbatim>\<open>e\<close>, optional sign, digits at the start of a string; 0 when the
  string does not start with one.
\<close>

definition exponentPart :: "string \<Rightarrow> int" where
  "exponentPart s =
     (case s of
        [] \<Rightarrow> 0
      | c # r \<Rightarrow>
          if c = CHR ''e'' \<or> c = CHR ''E'' then
            (case r of
               [] \<Rightarrow> 0
             | d # r' \<Rightarrow>
                 if d = CHR ''-'' then
                   (if takeWhile isDigit r' = [] then 0 else - decimalValue (takeWhile isDigit r'))
                 else if d = CHR ''+'' then decimalValue (takeWhile isDigit r')
                 else decimalValue (takeWhile isDigit r))
          else 0)"

text \<open>
  \<^verbatim>\<open>parseFloat\<close>: leading white space is skipped, then the longest prefix that is a
  decimal literal (sign, \<^verbatim>\<open>Infinity\<close> or digits with an optional fraction and exponent)
  is read and rounded; \<^verbatim>\<open>NaN\<close> when there is none.
\<close>

definition parseUnsigned :: "string \<Rightarrow> number" where
  "parseUnsigned u =
     (if startsWith u ''Infinity'' then PosInf
      else
        (let ip = takeWhile isDigit u;
             r1 = dropWhile isDigit u;
             fp = (case r1 of [] \<Rightarrow> [] | c # r \<Rightarrow> if c = CHR ''.'' then takeWhile isDigit r else []);
             r2 = (case r1 of [] \<Rightarrow> [] | c # r \<Rightarrow> if c = CHR ''.'' then dropWhile isDigit r else r1)
         in if ip = [] \<and> fp = [] then NaN
            else roundToDouble
                   (rat_of_int (decimalValue (ip @ fp)) * pow10 (exponentPart r2 - int (length fp)))))"

fun numNeg :: "number \<Rightarrow> number" where
  "numNeg (Fin a) = Fin (- a)"
| "numNeg NaN = NaN"
| "numNeg PosInf = NegInf"
| "numNeg NegInf = PosInf"

definition parseFloat :: "string \<Rightarrow> number" where
  "parseFloat s =
     (case dropWhile isWhiteSpace s of
        [] \<Rightarrow> NaN
      | c # r \<Rightarrow>
          if c = CHR ''-'' then numNeg (parseUnsigned r)
          else if c = CHR ''+'' then parseUnsigned r
          else parseUnsigned (c # r))"

subsection \<open>\<^verbatim>\<open>Number.prototype.toString\<close>\<close>

text \<open>
  The decimal digits of a positive binary64 value: the least number \<open>k\<close> of digits for
  which some \<open>k\<close>-digit integer \<open>s\<close> and exponent give a decimal that rounds to the value,
  and for that \<open>k\<close> the \<open>s\<close> nearest to it. \<open>n\<close> is the position of the decimal point.
  Seventeen digits always suffice.
\<close>

definition digitCandidates :: "rat \<Rightarrow> int \<Rightarrow> nat \<Rightarrow> (int \<times> int) list" where
  "digitCandidates v n k =
     (let sc = pow10 (n - int k);
          q = v / sc;
          lo = \<lfloor>q\<rfloor>;
          hi = \<lceil>q\<rceil>;
          ok = filter (\<lambda>s. roundToDouble (rat_of_int s * sc) = Fin v)
                  (if lo = hi then [lo] else if q - rat_of_int lo \<le> rat_of_int hi - q then [lo, hi]
                   else [hi, lo])
      in map (\<lambda>s. if s = 10 ^ k then (10 ^ (k - 1), n + 1) else (s, n)) ok)"

fun shortestDigits :: "rat \<Rightarrow> int \<Rightarrow> nat list \<Rightarrow> (nat \<times> int \<times> int) option" where
  "shortestDigits v n [] = None"
| "shortestDigits v n (k # ks) =
     (case digitCandidates v n k of
        [] \<Rightarrow> shortestDigits v n ks
      | (s, n') # _ \<Rightarrow> Some (k, s, n'))"

definition showInt :: "int \<Rightarrow> string" where
  "showInt k = (if k < 0 then ''-'' @ showNat (nat (- k)) else showNat (nat k))"

definition formatDigits :: "nat \<Rightarrow> string \<Rightarrow> int \<Rightarrow> string" where
  "formatDigits k ds n =
     (if int k \<le> n \<and> n \<le> 21 then ds @ replicate (nat (n - int k)) CHR ''0''
      else if 0 < n \<and> n \<le> 21 then take (nat n) ds @ ''.'' @ drop (nat n) ds
      else if - 6 < n \<and> n \<le> 0 then ''0.'' @ replicate (nat (- n)) CHR ''0'' @ ds
      else (if k = 1 then ds else take 1 ds @ ''.'' @ drop 1 ds)
           @ ''e'' @ (if n - 1 < 0 then ''-'' else ''+'') @ showNat (nat \<bar>n - 1\<bar>))"

definition positiveToString :: "rat \<Rightarrow> string" where
  "positiveToString v =
     (case shortestDigits v (magnitude 10 v + 1) [1 ..< 18] of
        Some (k, s, n) \<Rightarrow> formatDigits k (showNat (nat s)) n
      | None \<Rightarrow> ''NaN'')"

definition numberToString :: "number \<Rightarrow> string" where
  "numberToString m =
     (case m of
        NaN \<Rightarrow> ''NaN''
      | PosInf \<Rightarrow> ''Infinity''
      | NegInf \<Rightarrow> ''-Infinity''
      | Fin v \<Rightarrow>
          if v = 0 then ''0''
          else if v < 0 then ''-'' @ positiveToString (- v)
          else positiveToString v)"

section \<open>Seismic parameter patterns\<close>

text \<open>
  \<^verbatim>\<open>SEISMIC_PATTERNS\<close>: for each parameter its label, full name, ordered list of
  regular expressions (all with the flags \<^verbatim>\<open>gi\<close> and one capturing group), value type and,
  for a category, the valid values. The source text of the expressions is listed before
  each list. Two character classes of the source also contain a character outside the
  modelled range (an en dash after the hyphen, a subscript one after the digit one, shown
  as \<^verbatim>\<open>\u2013\<close> and \<^verbatim>\<open>\u2081\<close>); no modelled character equals it, so it is left out of
  the class.
\<close>

record Described =
  label :: string
  fullName :: string
  type' :: string

record SeismicParameter = Described +
  patterns :: "rx list"
  validValues :: "string list option"

definition Only :: "char \<Rightarrow> char \<times> char" where
  "Only c = (c, c)"

text \<open>The characters of \<^verbatim>\<open>\s\<close> inside a character class.\<close>

definition spaceRanges :: "(char \<times> char) list" where
  "spaceRanges = [(CHR 0x09, CHR 0x0D), Only CHR 0x20, Only CHR 0xA0]"

text \<open>
  \<^item> \<^verbatim>\<open>/S\s*DS\s*:\s*(\d+\.?\d+)/gi\<close>
  \<^item> \<^verbatim>\<open>/SDS\s*:\s*(\d+\.?\d+)/gi\<close>
  \<^item> \<^verbatim>\<open>/S[_\s]?DS\s*=\s*(\d+\.?\d*)/gi\<close>
  \<^item> \<^verbatim>\<open>/S_DS\s+(\d+\.\d+)\s*g/gi\<close>
  \<^item> \<^verbatim>\<open>/SDS\s+(\d+\.\d+)\s*g/gi\<close>
  \<^item> \<^verbatim>\<open>/S\s+DS\s+(\d+\.\d+)\s*g/gi\<close>
  \<^item> \<^verbatim>\<open>/Design\s+Spectral\s+Response\s+Acceleration\s+.*?\(.*?short.*?period.*?\).*?[=:]\s*(\d+\.\d+)/gi\<close>
  \<^item> \<^verbatim>\<open>/Short\s+Period\s+Design\s+Spectral\s+Response\s+Acceleration\s*[=:]\s*(\d+\.\d+)/gi\<close>
  \<^item> \<^verbatim>\<open>/Adjusted\s+Short\s+Period\s+Spectral\s+Acceleration\s*[=:]\s*(\d+\.\d+)/gi\<close>
\<close>

definition SdsPatterns :: "rx list" where
  "SdsPatterns =
     [Seqs [Chr CHR ''S'', Star Space, Str ''DS'', Star Space, Chr CHR '':'', Star Space,
        Group 1 (Seqs [Plus Digit, Opt (Chr CHR ''.''), Plus Digit])],
      Seqs [Str ''SDS'', Star Space, Chr CHR '':'', Star Space, Group 1 (Seqs [Plus Digit,
        Opt (Chr CHR ''.''), Plus Digit])],
      Seqs [Chr CHR ''S'', Opt (Class True ([Only CHR ''_''] @ spaceRanges)), Str ''DS'',
        Star Space, Chr CHR ''='', Star Space, Group 1 (Seqs [Plus Digit,
        Opt (Chr CHR ''.''), Star Digit])],
      Seqs [Str ''S_DS'', Plus Space, Group 1 (Seqs [Plus Digit, Chr CHR ''.'',
        Plus Digit]), Star Space, Chr CHR ''g''],
      Seqs [Str ''SDS'', Plus Space, Group 1 (Seqs [Plus Digit, Chr CHR ''.'',
        Plus Digit]), Star Space, Chr CHR ''g''],
      Seqs [Chr CHR ''S'', Plus Space, Str ''DS'', Plus Space, Group 1 (Seqs [Plus Digit,
        Chr CHR ''.'', Plus Digit]), Star Space, Chr CHR ''g''],
      Seqs [Str ''Design'', Plus Space, Str ''Spectral'', Plus Space, Str ''Response'',
        Plus Space, Str ''Acceleration'', Plus Space, LazyStar AnyChar, Chr CHR ''('',
        LazyStar AnyChar, Str ''short'', LazyStar AnyChar, Str ''period'',
        LazyStar AnyChar, Chr CHR '')'', LazyStar AnyChar, Class True [Only CHR ''='',
        Only CHR '':''], Star Space, Group 1 (Seqs [Plus Digit, Chr CHR ''.'',
        Plus Digit])],
      Seqs [Str ''Short'', Plus Space, Str ''Period'', Plus Space, Str ''Design'',
        Plus Space, Str ''Spectral'', Plus Space, Str ''Response'', Plus Space,
        Str ''Acceleration'', Star Space, Class True [Only CHR ''='', Only CHR '':''],
        Star Space, Group 1 (Seqs [Plus Digit, Chr CHR ''.'', Plus Digit])],
      Seqs [Str ''Adjusted'', Plus Space, Str ''Short'', Plus Space, Str ''Period'',
        Plus Space, Str ''Spectral'', Plus Space, Str ''Acceleration'', Star Space,
        Class True [Only CHR ''='', Only CHR '':''], Star Space, Group 1 (Seqs [Plus Digit,
        Chr CHR ''.'', Plus Digit])]]"

definition SdsConfig :: SeismicParameter where
  "SdsConfig =
     \<lparr>label = ''Sds'', fullName = ''Design Spectral Response Acceleration (Short Period)'',
      type' = ''numeric'', patterns = SdsPatterns, validValues = None\<rparr>"

text \<open>
  \<^item> \<^verbatim>\<open>/S\s*D1\s*:\s*(\d+\.?\d+)/gi\<close>
  \<^item> \<^verbatim>\<open>/SD1\s*:\s*(\d+\.?\d+)/gi\<close>
  \<^item> \<^verbatim>\<open>/S[_\s]?D1\s*=\s*(\d+\.?\d*)/gi\<close>
  \<^item> \<^verbatim>\<open>/S_D1\s+(\d+\.\d+)\s*g/gi\<close>
  \<^item> \<^verbatim>\<open>/SD1\s+(\d+\.\d+)\s*g/gi\<close>
  \<^item> \<^verbatim>\<open>/S\s+D1\s+(\d+\.\d+)\s*g/gi\<close>
  \<^item> \<^verbatim>\<open>/Design\s+Spectral\s+Response\s+Acceleration\s+.*?\(.*?1.*?second.*?\).*?[=:]\s*(\d+\.\d+)/gi\<close>
  \<^item> \<^verbatim>\<open>/1\s*[-\u2013]\s*Second\s+Design\s+Spectral\s+Response\s+Acceleration\s*[=:]\s*(\d+\.\d+)/gi\<close>
  \<^item> \<^verbatim>\<open>/Adjusted\s+1\s*[-\u2013]\s*Second\s+Spectral\s+Acceleration\s*[=:]\s*(\d+\.\d+)/gi\<close>
\<close>

definition Sd1Patterns :: "rx list" where
  "Sd1Patterns =
     [Seqs [Chr CHR ''S'', Star Space, Str ''D1'', Star Space, Chr CHR '':'', Star Space,
        Group 1 (Seqs [Plus Digit, Opt (Chr CHR ''.''), Plus Digit])],
      Seqs [Str ''SD1'', Star Space, Chr CHR '':'', Star Space, Group 1 (Seqs [Plus Digit,
        Opt (Chr CHR ''.''), Plus Digit])],
      Seqs [Chr CHR ''S'', Opt (Class True ([Only CHR ''_''] @ spaceRanges)), Str ''D1'',
        Star Space, Chr CHR ''='', Star Space, Group 1 (Seqs [Plus Digit,
        Opt (Chr CHR ''.''), Star Digit])],
      Seqs [Str ''S_D1'', Plus Space, Group 1 (Seqs [Plus Digit, Chr CHR ''.'',
        Plus Digit]), Star Space, Chr CHR ''g''],
      Seqs [Str ''SD1'', Plus Space, Group 1 (Seqs [Plus Digit, Chr CHR ''.'',
        Plus Digit]), Star Space, Chr CHR ''g''],
      Seqs [Chr CHR ''S'', Plus Space, Str ''D1'', Plus Space, Group 1 (Seqs [Plus Digit,
        Chr CHR ''.'', Plus Digit]), Star Space, Chr CHR ''g''],
      Seqs [Str ''Design'', Plus Space, Str ''Spectral'', Plus Space, Str ''Response'',
        Plus Space, Str ''Acceleration'', Plus Space, LazyStar AnyChar, Chr CHR ''('',
        LazyStar AnyChar, Chr CHR ''1'', LazyStar AnyChar, Str ''second'',
        LazyStar AnyChar, Chr CHR '')'', LazyStar AnyChar, Class True [Only CHR ''='',
        Only CHR '':''], Star Space, Group 1 (Seqs [Plus Digit, Chr CHR ''.'',
        Plus Digit])],
      Seqs [Chr CHR ''1'', Star Space, Class True [Only CHR ''-''], Star Space,
        Str ''Second'', Plus Space, Str ''Design'', Plus Space, Str ''Spectral'',
        Plus Space, Str ''Response'', Plus Space, Str ''Acceleration'', Star Space,
        Class True [Only CHR ''='', Only CHR '':''], Star Space, Group 1 (Seqs [Plus Digit,
        Chr CHR ''.'', Plus Digit])],
      Seqs [Str ''Adjusted'', Plus Space, Chr CHR ''1'', Star Space,
        Class True [Only CHR ''-''], Star Space, Str ''Second'', Plus Space,
        Str ''Spectral'', Plus Space, Str ''Acceleration'', Star Space,
        Class True [Only CHR ''='', Only CHR '':''], Star Space, Group 1 (Seqs [Plus Digit,
        Chr CHR ''.'', Plus Digit])]]"

definition Sd1Config :: SeismicParameter where
  "Sd1Config =
     \<lparr>label = ''Sd1'', fullName = ''Design Spectral Response Acceleration (1-Second)'',
      type' = ''numeric'', patterns = Sd1Patterns, validValues = None\<rparr>"

text \<open>
  \<^item> \<^verbatim>\<open>/S\s*MS\s*:\s*(\d+\.?\d+)/gi\<close>
  \<^item> \<^verbatim>\<open>/SMS\s*:\s*(\d+\.?\d+)/gi\<close>
  \<^item> \<^verbatim>\<open>/S_MS\s+(\d+\.\d+)\s*g/gi\<close>
  \<^item> \<^verbatim>\<open>/SMS\s+(\d+\.\d+)\s*g/gi\<close>
  \<^item> \<^verbatim>\<open>/S\s+MS\s+(\d+\.\d+)\s*g/gi\<close>
  \<^item> \<^verbatim>\<open>/S_MS\s*=\s*(\d+\.\d+)/gi\<close>
  \<^item> \<^verbatim>\<open>/SMS\s*=\s*(\d+\.\d+)/gi\<close>
\<close>

definition SmsPatterns :: "rx list" where
  "SmsPatterns =
     [Seqs [Chr CHR ''S'', Star Space, Str ''MS'', Star Space, Chr CHR '':'', Star Space,
        Group 1 (Seqs [Plus Digit, Opt (Chr CHR ''.''), Plus Digit])],
      Seqs [Str ''SMS'', Star Space, Chr CHR '':'', Star Space, Group 1 (Seqs [Plus Digit,
        Opt (Chr CHR ''.''), Plus Digit])],
      Seqs [Str ''S_MS'', Plus Space, Group 1 (Seqs [Plus Digit, Chr CHR ''.'',
        Plus Digit]), Star Space, Chr CHR ''g''],
      Seqs [Str ''SMS'', Plus Space, Group 1 (Seqs [Plus Digit, Chr CHR ''.'',
        Plus Digit]), Star Space, Chr CHR ''g''],
      Seqs [Chr CHR ''S'', Plus Space, Str ''MS'', Plus Space, Group 1 (Seqs [Plus Digit,
        Chr CHR ''.'', Plus Digit]), Star Space, Chr CHR ''g''],
      Seqs [Str ''S_MS'', Star Space, Chr CHR ''='', Star Space, Group 1 (Seqs [Plus Digit,
        Chr CHR ''.'', Plus Digit])],
      Seqs [Str ''SMS'', Star Space, Chr CHR ''='', Star Space, Group 1 (Seqs [Plus Digit,
        Chr CHR ''.'', Plus Digit])]]"

definition SmsConfig :: SeismicParameter where
  "SmsConfig =
     \<lparr>label = ''Sms'', fullName = ''Site-Modified MCER Spectral Response (Short Period)'',
      type' = ''numeric'', patterns = SmsPatterns, validValues = None\<rparr>"

text \<open>
  \<^item> \<^verbatim>\<open>/S\s*M1\s*:\s*(\d+\.?\d+)/gi\<close>
  \<^item> \<^verbatim>\<open>/SM1\s*:\s*(\d+\.?\d+)/gi\<close>
  \<^item> \<^verbatim>\<open>/S_M1\s+(\d+\.\d+)\s*g/gi\<close>
  \<^item> \<^verbatim>\<open>/SM1\s+(\d+\.\d+)\s*g/gi\<close>
  \<^item> \<^verbatim>\<open>/S\s+M1\s+(\d+\.\d+)\s*g/gi\<close>
  \<^item> \<^verbatim>\<open>/S_M1\s*=\s*(\d+\.\d+)/gi\<close>
  \<^item> \<^verbatim>\<open>/SM1\s*=\s*(\d+\.\d+)/gi\<close>
\<close>

definition Sm1Patterns :: "rx list" where
  "Sm1Patterns =
     [Seqs [Chr CHR ''S'', Star Space, Str ''M1'', Star Space, Chr CHR '':'', Star Space,
        Group 1 (Seqs [Plus Digit, Opt (Chr CHR ''.''), Plus Digit])],
      Seqs [Str ''SM1'', Star Space, Chr CHR '':'', Star Space, Group 1 (Seqs [Plus Digit,
        Opt (Chr CHR ''.''), Plus Digit])],
      Seqs [Str ''S_M1'', Plus Space, Group 1 (Seqs [Plus Digit, Chr CHR ''.'',
        Plus Digit]), Star Space, Chr CHR ''g''],
      Seqs [Str ''SM1'', Plus Space, Group 1 (Seqs [Plus Digit, Chr CHR ''.'',
        Plus Digit]), Star Space, Chr CHR ''g''],
      Seqs [Chr CHR ''S'', Plus Space, Str ''M1'', Plus Space, Group 1 (Seqs [Plus Digit,
        Chr CHR ''.'', Plus Digit]), Star Space, Chr CHR ''g''],
      Seqs [Str ''S_M1'', Star Space, Chr CHR ''='', Star Space, Group 1 (Seqs [Plus Digit,
        Chr CHR ''.'', Plus Digit])],
      Seqs [Str ''SM1'', Star Space, Chr CHR ''='', Star Space, Group 1 (Seqs [Plus Digit,
        Chr CHR ''.'', Plus Digit])]]"

definition Sm1Config :: SeismicParameter where
  "Sm1Config =
     \<lparr>label = ''Sm1'', fullName = ''Site-Modified MCER Spectral Response (1-Second)'',
      type' = ''numeric'', patterns = Sm1Patterns, validValues = None\<rparr>"

text \<open>
  \<^item> \<^verbatim>\<open>/Mapped\s+Spectral\s+Response\s+Acceleration\s+at\s+0\.2-second\s+period,?\s+S[sS]\s+(\d{1,2}(?:\.\d+)?)\s*g/gi\<close>
  \<^item> \<^verbatim>\<open>/\bS\s+S\s*[=:,]\s*(\d{1,2}(?:\.\d+)?)\s*g?\b/gi\<close>
  \<^item> \<^verbatim>\<open>/\bSS\s*[=:,]\s*(\d{1,2}(?:\.\d+)?)\s*g?\b/gi\<close>
  \<^item> \<^verbatim>\<open>/\bSs\s*=\s*(\d{1,2}(?:\.\d+)?)\b/gi\<close>
  \<^item> \<^verbatim>\<open>/MCER\s+.*?Short\s+Period\s+.*?[=:]\s*(\d{1,2}\.\d+)/gi\<close>
  \<^item> \<^verbatim>\<open>/Mapped\s+Spectral\s+Acceleration\s+.*?Short\s+Period.*?[=:]\s*(\d{1,2}\.\d+)/gi\<close>
  \<^item> \<^verbatim>\<open>/Risk\s*[-\u2013]\s*Targeted\s+.*?Short\s+Period.*?[=:]\s*(\d{1,2}\.\d+)/gi\<close>
\<close>

definition SsPatterns :: "rx list" where
  "SsPatterns =
     [Seqs [Str ''Mapped'', Plus Space, Str ''Spectral'', Plus Space, Str ''Response'',
        Plus Space, Str ''Acceleration'', Plus Space, Str ''at'', Plus Space,
        Str ''0.2-second'', Plus Space, Str ''period'', Opt (Chr CHR '',''), Plus Space,
        Chr CHR ''S'', Class True [Only CHR ''s'', Only CHR ''S''], Plus Space,
        Group 1 (Seqs [Between 1 2 Digit, Opt (Seqs [Chr CHR ''.'', Plus Digit])]),
        Star Space, Chr CHR ''g''],
      Seqs [WordBoundary, Chr CHR ''S'', Plus Space, Chr CHR ''S'', Star Space,
        Class True [Only CHR ''='', Only CHR '':'', Only CHR '',''], Star Space,
        Group 1 (Seqs [Between 1 2 Digit, Opt (Seqs [Chr CHR ''.'', Plus Digit])]),
        Star Space, Opt (Chr CHR ''g''), WordBoundary],
      Seqs [WordBoundary, Str ''SS'', Star Space, Class True [Only CHR ''='',
        Only CHR '':'', Only CHR '',''], Star Space, Group 1 (Seqs [Between 1 2 Digit,
        Opt (Seqs [Chr CHR ''.'', Plus Digit])]), Star Space, Opt (Chr CHR ''g''),
        WordBoundary],
      Seqs [WordBoundary, Str ''Ss'', Star Space, Chr CHR ''='', Star Space,
        Group 1 (Seqs [Between 1 2 Digit, Opt (Seqs [Chr CHR ''.'', Plus Digit])]),
        WordBoundary],
      Seqs [Str ''MCER'', Plus Space, LazyStar AnyChar, Str ''Short'', Plus Space,
        Str ''Period'', Plus Space, LazyStar AnyChar, Class True [Only CHR ''='',
        Only CHR '':''], Star Space, Group 1 (Seqs [Between 1 2 Digit, Chr CHR ''.'',
        Plus Digit])],
      Seqs [Str ''Mapped'', Plus Space, Str ''Spectral'', Plus Space, Str ''Acceleration'',
        Plus Space, LazyStar AnyChar, Str ''Short'', Plus Space, Str ''Period'',
        LazyStar AnyChar, Class True [Only CHR ''='', Only CHR '':''], Star Space,
        Group 1 (Seqs [Between 1 2 Digit, Chr CHR ''.'', Plus Digit])],
      Seqs [Str ''Risk'', Star Space, Class True [Only CHR ''-''], Star Space,
        Str ''Targeted'', Plus Space, LazyStar AnyChar, Str ''Short'', Plus Space,
        Str ''Period'', LazyStar AnyChar, Class True [Only CHR ''='', Only CHR '':''],
        Star Space, Group 1 (Seqs [Between 1 2 Digit, Chr CHR ''.'', Plus Digit])]]"

definition SsConfig :: SeismicParameter where
  "SsConfig =
     \<lparr>label = ''Ss'', fullName = ''MCER Spectral Response Acceleration (Short Period)'',
      type' = ''numeric'', patterns = SsPatterns, validValues = None\<rparr>"

text \<open>
  \<^item> \<^verbatim>\<open>/Mapped\s+Spectral\s+Response\s+Acceleration\s+at\s+1\.0-second\s+period,?\s+S[1\u2081]\s+(\d{1,2}(?:\.\d+)?)\s*g/gi\<close>
  \<^item> \<^verbatim>\<open>/\bS\s+1\s*[=:,]\s*(\d{1,2}(?:\.\d+)?)\s*g?\b/gi\<close>
  \<^item> \<^verbatim>\<open>/\bS1\s*[=:,]\s*(\d{1,2}(?:\.\d+)?)\s*g?\b/gi\<close>
  \<^item> \<^verbatim>\<open>/MCER\s+.*?1\s*[-\u2013]\s*Second.*?[=:]\s*(\d{1,2}\.\d+)/gi\<close>
  \<^item> \<^verbatim>\<open>/Mapped\s+Spectral\s+Acceleration\s+.*?1\s*[-\u2013]\s*Second.*?[=:]\s*(\d{1,2}\.\d+)/gi\<close>
  \<^item> \<^verbatim>\<open>/Risk\s*[-\u2013]\s*Targeted\s+.*?1\s*[-\u2013]\s*Second.*?[=:]\s*(\d{1,2}\.\d+)/gi\<close>
\<close>

definition S1Patterns :: "rx list" where
  "S1Patterns =
     [Seqs [Str ''Mapped'', Plus Space, Str ''Spectral'', Plus Space, Str ''Response'',
        Plus Space, Str ''Acceleration'', Plus Space, Str ''at'', Plus Space,
        Str ''1.0-second'', Plus Space, Str ''period'', Opt (Chr CHR '',''), Plus Space,
        Chr CHR ''S'', Class True [Only CHR ''1''], Plus Space,
        Group 1 (Seqs [Between 1 2 Digit, Opt (Seqs [Chr CHR ''.'', Plus Digit])]),
        Star Space, Chr CHR ''g''],
      Seqs [WordBoundary, Chr CHR ''S'', Plus Space, Chr CHR ''1'', Star Space,
        Class True [Only CHR ''='', Only CHR '':'', Only CHR '',''], Star Space,
        Group 1 (Seqs [Between 1 2 Digit, Opt (Seqs [Chr CHR ''.'', Plus Digit])]),
        Star Space, Opt (Chr CHR ''g''), WordBoundary],
      Seqs [WordBoundary, Str ''S1'', Star Space, Class True [Only CHR ''='',
        Only CHR '':'', Only CHR '',''], Star Space, Group 1 (Seqs [Between 1 2 Digit,
        Opt (Seqs [Chr CHR ''.'', Plus Digit])]), Star Space, Opt (Chr CHR ''g''),
        WordBoundary],
      Seqs [Str ''MCER'', Plus Space, LazyStar AnyChar, Chr CHR ''1'', Star Space,
        Class True [Only CHR ''-''], Star Space, Str ''Second'', LazyStar AnyChar,
        Class True [Only CHR ''='', Only CHR '':''], Star Space,
        Group 1 (Seqs [Between 1 2 Digit, Chr CHR ''.'', Plus Digit])],
      Seqs [Str ''Mapped'', Plus Space, Str ''Spectral'', Plus Space, Str ''Acceleration'',
        Plus Space, LazyStar AnyChar, Chr CHR ''1'', Star Space,
        Class True [Only CHR ''-''], Star Space, Str ''Second'', LazyStar AnyChar,
        Class True [Only CHR ''='', Only CHR '':''], Star Space,
        Group 1 (Seqs [Between 1 2 Digit, Chr CHR ''.'', Plus Digit])],
      Seqs [Str ''Risk'', Star Space, Class True [Only CHR ''-''], Star Space,
        Str ''Targeted'', Plus Space, LazyStar AnyChar, Chr CHR ''1'', Star Space,
        Class True [Only CHR ''-''], Star Space, Str ''Second'', LazyStar AnyChar,
        Class True [Only CHR ''='', Only CHR '':''], Star Space,
        Group 1 (Seqs [Between 1 2 Digit, Chr CHR ''.'', Plus Digit])]]"

definition S1Config :: SeismicParameter where
  "S1Config =
     \<lparr>label = ''S1'', fullName = ''MCER Spectral Response Acceleration (1-Second)'',
      type' = ''numeric'', patterns = S1Patterns, validValues = None\<rparr>"

text \<open>
  \<^item> \<^verbatim>\<open>/Site\s+Coefficient,?\s+Fa\s+(\d+\.\d+)/gi\<close>
  \<^item> \<^verbatim>\<open>/FA\s*[=:,]\s*(\d+\.\d+)/gi\<close>
  \<^item> \<^verbatim>\<open>/F[_\s]?A\s*[=:,]\s*(\d+\.\d+)/gi\<close>
  \<^item> \<^verbatim>\<open>/Site\s+Coefficient\s+.*?Short\s+Period.*?[=:]\s*(\d+\.\d+)/gi\<close>
  \<^item> \<^verbatim>\<open>/Site\s+Class\s+Modification\s+Factor\s+.*?0\.2.*?[=:]\s*(\d+\.\d+)/gi\<close>
  \<^item> \<^verbatim>\<open>/FPGA\s*[=:]\s*(\d+\.\d+)/gi\<close>
\<close>

definition FaPatterns :: "rx list" where
  "FaPatterns =
     [Seqs [Str ''Site'', Plus Space, Str ''Coefficient'', Opt (Chr CHR '',''), Plus Space,
        Str ''Fa'', Plus Space, Group 1 (Seqs [Plus Digit, Chr CHR ''.'', Plus Digit])],
      Seqs [Str ''FA'', Star Space, Class True [Only CHR ''='', Only CHR '':'',
        Only CHR '',''], Star Space, Group 1 (Seqs [Plus Digit, Chr CHR ''.'',
        Plus Digit])],
      Seqs [Chr CHR ''F'', Opt (Class True ([Only CHR ''_''] @ spaceRanges)),
        Chr CHR ''A'', Star Space, Class True [Only CHR ''='', Only CHR '':'',
        Only CHR '',''], Star Space, Group 1 (Seqs [Plus Digit, Chr CHR ''.'',
        Plus Digit])],
      Seqs [Str ''Site'', Plus Space, Str ''Coefficient'', Plus Space, LazyStar AnyChar,
        Str ''Short'', Plus Space, Str ''Period'', LazyStar AnyChar,
        Class True [Only CHR ''='', Only CHR '':''], Star Space, Group 1 (Seqs [Plus Digit,
        Chr CHR ''.'', Plus Digit])],
      Seqs [Str ''Site'', Plus Space, Str ''Class'', Plus Space, Str ''Modification'',
        Plus Space, Str ''Factor'', Plus Space, LazyStar AnyChar, Str ''0.2'',
        LazyStar AnyChar, Class True [Only CHR ''='', Only CHR '':''], Star Space,
        Group 1 (Seqs [Plus Digit, Chr CHR ''.'', Plus Digit])],
      Seqs [Str ''FPGA'', Star Space, Class True [Only CHR ''='', Only CHR '':''],
        Star Space, Group 1 (Seqs [Plus Digit, Chr CHR ''.'', Plus Digit])]]"

definition FaConfig :: SeismicParameter where
  "FaConfig =
     \<lparr>label = ''Fa'', fullName = ''Site Coefficient (Short Period)'',
      type' = ''numeric'', patterns = FaPatterns, validValues = None\<rparr>"

text \<open>
  \<^item> \<^verbatim>\<open>/FV\s*[=:]\s*(\d+\.\d+)/gi\<close>
  \<^item> \<^verbatim>\<open>/F[_\s]?V\s*[=:]\s*(\d+\.\d+)/gi\<close>
  \<^item> \<^verbatim>\<open>/Site\s+Coefficient\s+.*?1\s*[-\u2013]\s*Second.*?[=:]\s*(\d+\.\d+)/gi\<close>
  \<^item> \<^verbatim>\<open>/Site\s+Class\s+Modification\s+Factor\s+.*?1\.0.*?[=:]\s*(\d+\.\d+)/gi\<close>
\<close>

definition FvPatterns :: "rx list" where
  "FvPatterns =
     [Seqs [Str ''FV'', Star Space, Class True [Only CHR ''='', Only CHR '':''],
        Star Space, Group 1 (Seqs [Plus Digit, Chr CHR ''.'', Plus Digit])],
      Seqs [Chr CHR ''F'', Opt (Class True ([Only CHR ''_''] @ spaceRanges)),
        Chr CHR ''V'', Star Space, Class True [Only CHR ''='', Only CHR '':''], Star Space,
        Group 1 (Seqs [Plus Digit, Chr CHR ''.'', Plus Digit])],
      Seqs [Str ''Site'', Plus Space, Str ''Coefficient'', Plus Space, LazyStar AnyChar,
        Chr CHR ''1'', Star Space, Class True [Only CHR ''-''], Star Space, Str ''Second'',
        LazyStar AnyChar, Class True [Only CHR ''='', Only CHR '':''], Star Space,
        Group 1 (Seqs [Plus Digit, Chr CHR ''.'', Plus Digit])],
      Seqs [Str ''Site'', Plus Space, Str ''Class'', Plus Space, Str ''Modification'',
        Plus Space, Str ''Factor'', Plus Space, LazyStar AnyChar, Str ''1.0'',
        LazyStar AnyChar, Class True [Only CHR ''='', Only CHR '':''], Star Space,
        Group 1 (Seqs [Plus Digit, Chr CHR ''.'', Plus Digit])]]"

definition FvConfig :: SeismicParameter where
  "FvConfig =
     \<lparr>label = ''Fv'', fullName = ''Site Coefficient (1-Second)'',
      type' = ''numeric'', patterns = FvPatterns, validValues = None\<rparr>"

text \<open>
  \<^item> \<^verbatim>\<open>/Site\s+Class\s+([A-F])\b/gi\<close>
  \<^item> \<^verbatim>\<open>/Site\s+Class\s*[=:]\s*([A-F])\b/gi\<close>
  \<^item> \<^verbatim>\<open>/Site\s+Classification\s*[=:]\s*([A-F])\b/gi\<close>
  \<^item> \<^verbatim>\<open>/ASCE\s+7.*?Site\s+Class\s*[=:]\s*([A-F])\b/gi\<close>
  \<^item> \<^verbatim>\<open>/Seismic\s+Site\s+Class\s*[=:]\s*([A-F])\b/gi\<close>
  \<^item> \<^verbatim>\<open>/The\s+site\s+class\s+is\s+([A-F])\b/gi\<close>
\<close>

definition siteClassPatterns :: "rx list" where
  "siteClassPatterns =
     [Seqs [Str ''Site'', Plus Space, Str ''Class'', Plus Space,
        Group 1 (Class True [(CHR ''A'', CHR ''F'')]), WordBoundary],
      Seqs [Str ''Site'', Plus Space, Str ''Class'', Star Space,
        Class True [Only CHR ''='', Only CHR '':''], Star Space,
        Group 1 (Class True [(CHR ''A'', CHR ''F'')]), WordBoundary],
      Seqs [Str ''Site'', Plus Space, Str ''Classification'', Star Space,
        Class True [Only CHR ''='', Only CHR '':''], Star Space,
        Group 1 (Class True [(CHR ''A'', CHR ''F'')]), WordBoundary],
      Seqs [Str ''ASCE'', Plus Space, Chr CHR ''7'', LazyStar AnyChar, Str ''Site'',
        Plus Space, Str ''Class'', Star Space, Class True [Only CHR ''='', Only CHR '':''],
        Star Space, Group 1 (Class True [(CHR ''A'', CHR ''F'')]), WordBoundary],
      Seqs [Str ''Seismic'', Plus Space, Str ''Site'', Plus Space, Str ''Class'',
        Star Space, Class True [Only CHR ''='', Only CHR '':''], Star Space,
        Group 1 (Class True [(CHR ''A'', CHR ''F'')]), WordBoundary],
      Seqs [Str ''The'', Plus Space, Str ''site'', Plus Space, Str ''class'', Plus Space,
        Str ''is'', Plus Space, Group 1 (Class True [(CHR ''A'', CHR ''F'')]),
        WordBoundary]]"

definition siteClassConfig :: SeismicParameter where
  "siteClassConfig =
     \<lparr>label = ''Site Class'', fullName = ''Site Classification'',
      type' = ''category'', patterns = siteClassPatterns, validValues = Some [''A'', ''B'', ''C'', ''D'', ''E'', ''F'']\<rparr>"

text \<open>
  \<^item> \<^verbatim>\<open>/RISK\s+CATEGORY:\s*(I{1,3}|IV)\b/gi\<close>
  \<^item> \<^verbatim>\<open>/Risk\s+Category\s*[=:]\s*(I{1,3}|IV)\b/gi\<close>
  \<^item> \<^verbatim>\<open>/Seismic\s+Risk\s+Category\s*[=:]\s*(I{1,3}|IV)\b/gi\<close>
  \<^item> \<^verbatim>\<open>/ASCE\s+7.*?Risk\s+Category\s*[=:]\s*(I{1,3}|IV)\b/gi\<close>
  \<^item> \<^verbatim>\<open>/Occupancy\s+Category\s*[=:]\s*(I{1,3}|IV)\b/gi\<close>
  \<^item> \<^verbatim>\<open>/The\s+risk\s+category\s+is\s+(I{1,3}|IV)\b/gi\<close>
\<close>

definition riskCategoryPatterns :: "rx list" where
  "riskCategoryPatterns =
     [Seqs [Str ''RISK'', Plus Space, Str ''CATEGORY:'', Star Space,
        Group 1 (Alt (Between 1 3 (Chr CHR ''I'')) (Str ''IV'')), WordBoundary],
      Seqs [Str ''Risk'', Plus Space, Str ''Category'', Star Space,
        Class True [Only CHR ''='', Only CHR '':''], Star Space,
        Group 1 (Alt (Between 1 3 (Chr CHR ''I'')) (Str ''IV'')), WordBoundary],
      Seqs [Str ''Seismic'', Plus Space, Str ''Risk'', Plus Space, Str ''Category'',
        Star Space, Class True [Only CHR ''='', Only CHR '':''], Star Space,
        Group 1 (Alt (Between 1 3 (Chr CHR ''I'')) (Str ''IV'')), WordBoundary],
      Seqs [Str ''ASCE'', Plus Space, Chr CHR ''7'', LazyStar AnyChar, Str ''Risk'',
        Plus Space, Str ''Category'', Star Space, Class True [Only CHR ''='',
        Only CHR '':''], Star Space,
        Group 1 (Alt (Between 1 3 (Chr CHR ''I'')) (Str ''IV'')), WordBoundary],
      Seqs [Str ''Occupancy'', Plus Space, Str ''Category'', Star Space,
        Class True [Only CHR ''='', Only CHR '':''], Star Space,
        Group 1 (Alt (Between 1 3 (Chr CHR ''I'')) (Str ''IV'')), WordBoundary],
      Seqs [Str ''The'', Plus Space, Str ''risk'', Plus Space, Str ''category'',
        Plus Space, Str ''is'', Plus Space,
        Group 1 (Alt (Between 1 3 (Chr CHR ''I'')) (Str ''IV'')), WordBoundary]]"

definition riskCategoryConfig :: SeismicParameter where
  "riskCategoryConfig =
     \<lparr>label = ''Risk Category'', fullName = ''Risk Category'',
      type' = ''category'', patterns = riskCategoryPatterns, validValues = Some [''I'', ''II'', ''III'', ''IV'']\<rparr>"

text \<open>
  \<^item> \<^verbatim>\<open>/Seismic\s+Design\s+Category\s+for\s+Risk\s+Category[^,\n]*?([A-F])\b/gi\<close>
  \<^item> \<^verbatim>\<open>/SEISMIC\s+DESIGN\s+CATEGORY:\s*([A-F])\b/gi\<close>
  \<^item> \<^verbatim>\<open>/Seismic\s+Design\s+Category\s+([A-F])\b/gi\<close>
  \<^item> \<^verbatim>\<open>/Seismic\s+Design\s+Category\s*[=:]\s*([A-F])\b/gi\<close>
  \<^item> \<^verbatim>\<open>/SDC\s*[=:]\s*([A-F])\b/gi\<close>
\<close>

definition seismicDesignCategoryPatterns :: "rx list" where
  "seismicDesignCategoryPatterns =
     [Seqs [Str ''Seismic'', Plus Space, Str ''Design'', Plus Space, Str ''Category'',
        Plus Space, Str ''for'', Plus Space, Str ''Risk'', Plus Space, Str ''Category'',
        LazyStar (Class False [Only CHR '','', Only CHR 0x0A]),
        Group 1 (Class True [(CHR ''A'', CHR ''F'')]), WordBoundary],
      Seqs [Str ''SEISMIC'', Plus Space, Str ''DESIGN'', Plus Space, Str ''CATEGORY:'',
        Star Space, Group 1 (Class True [(CHR ''A'', CHR ''F'')]), WordBoundary],
      Seqs [Str ''Seismic'', Plus Space, Str ''Design'', Plus Space, Str ''Category'',
        Plus Space, Group 1 (Class True [(CHR ''A'', CHR ''F'')]), WordBoundary],
      Seqs [Str ''Seismic'', Plus Space, Str ''Design'', Plus Space, Str ''Category'',
        Star Space, Class True [Only CHR ''='', Only CHR '':''], Star Space,
        Group 1 (Class True [(CHR ''A'', CHR ''F'')]), WordBoundary],
      Seqs [Str ''SDC'', Star Space, Class True [Only CHR ''='', Only CHR '':''],
        Star Space, Group 1 (Class True [(CHR ''A'', CHR ''F'')]), WordBoundary]]"

definition seismicDesignCategoryConfig :: SeismicParameter where
  "seismicDesignCategoryConfig =
     \<lparr>label = ''SDC'', fullName = ''Seismic Design Category'',
      type' = ''category'', patterns = seismicDesignCategoryPatterns, validValues = Some [''A'', ''B'', ''C'', ''D'', ''E'', ''F'']\<rparr>"

text \<open>The object \<^verbatim>\<open>SEISMIC_PATTERNS\<close>, as its entries in order.\<close>

definition SEISMIC_PATTERNS :: "(string \<times> SeismicParameter) list" where
  "SEISMIC_PATTERNS =
     [(''Sds'', SdsConfig),
      (''Sd1'', Sd1Config),
      (''Sms'', SmsConfig),
      (''Sm1'', Sm1Config),
      (''Ss'', SsConfig),
      (''S1'', S1Config),
      (''Fa'', FaConfig),
      (''Fv'', FvConfig),
      (''siteClass'', siteClassConfig),
      (''riskCategory'', riskCategoryConfig),
      (''seismicDesignCategory'', seismicDesignCategoryConfig)]"

section \<open>Geotechnical values\<close>

text \<open>\<^verbatim>\<open>normalizeValue\<close> and \<^verbatim>\<open>valuesMatch\<close> of \<^verbatim>\<open>geotechPatterns.js\<close>.\<close>

definition normalizeValue :: "string \<Rightarrow> string \<Rightarrow> string" where
  "normalizeValue v ty =
     (if ty = ''numeric'' then
        (let num = parseFloat v in if num = NaN then v else numberToString num)
      else if ty = ''category'' then trim (toUpperCase v)
      else trim v)"

definition valuesMatch :: "string \<Rightarrow> string \<Rightarrow> string \<Rightarrow> bool" where
  "valuesMatch value1 value2 ty =
     (if ty = ''numeric'' then
        (let num1 = parseFloat value1; num2 = parseFloat value2
         in if num1 = NaN \<or> num2 = NaN then False
            else numLessEq (numAbs (numSub num1 num2)) (literal 0.005))
      else if ty = ''category'' then trim (toUpperCase value1) = trim (toUpperCase value2)
      else trim value1 = trim value2)"

section \<open>Geotechnical extractor\<close>

text \<open>
  A page of extracted text: \<^verbatim>\<open>{ pageNumber, items, fullText }\<close>; the items carry a string
  with position and size (\<^verbatim>\<open>text\<close>, \<^verbatim>\<open>x\<close>, \<^verbatim>\<open>y\<close>, \<^verbatim>\<open>width\<close>, \<^verbatim>\<open>height\<close>).
\<close>

record PositionedText =
  ptText :: string
  ptX :: rat
  ptY :: rat
  ptWidth :: rat
  ptHeight :: rat

record TextPage =
  pageNumber :: nat
  fullText :: string
  items :: "PositionedText list option"

text \<open>An entry of \<^verbatim>\<open>extractedValues\<close>; \<open>None\<close> is \<^verbatim>\<open>null\<close>.\<close>

record ExtractedValue = Described +
  value' :: "string option"
  pageNumber' :: "nat option"
  confidence :: rat

text \<open>
  The priority of a match from the text around its index: 100 characters before it to
  100 characters after it, in upper case.
\<close>

definition matchPriority :: "string \<Rightarrow> rxResult \<Rightarrow> int" where
  "matchPriority pageText m =
     (let contextStart = max 0 (int (fst m) - 100);
          contextEnd = min (int (length pageText)) (int (fst m) + 100);
          context = toUpperCase (substring pageText contextStart contextEnd)
      in if strIncludes context ''SITE SPECIFIC'' \<or> strIncludes context ''SITE-SPECIFIC'' then 2
         else if \<not> strIncludes context ''ASCE'' \<and> \<not> strIncludes context ''SECTION 11'' then 1
         else 0)"

text \<open>
  The test that makes the loop skip a match: no captured text, or a category value that
  is not a valid one.
\<close>

definition skipped :: "SeismicParameter \<Rightarrow> rxResult \<Rightarrow> bool" where
  "skipped config m =
     (case capture m 1 of
        None \<Rightarrow> True
      | Some rawValue \<Rightarrow>
          rawValue = [] \<or>
          (type' config = ''category'' \<and>
           (case validValues config of
              None \<Rightarrow> False
            | Some valid \<Rightarrow> trim (toUpperCase rawValue) \<notin> set valid)))"

text \<open>
  The loop \<^verbatim>\<open>for (const match of matches)\<close>; the state is \<^verbatim>\<open>bestMatch\<close> and
  \<^verbatim>\<open>bestPriority\<close>, initially \<^verbatim>\<open>null\<close> and \<open>-1\<close>.
\<close>

fun selectBest ::
  "SeismicParameter \<Rightarrow> string \<Rightarrow> rxResult list \<Rightarrow> rxResult option \<times> int \<Rightarrow> rxResult option \<times> int" where
  "selectBest config pageText [] best = best"
| "selectBest config pageText (m # ms) best =
     (if skipped config m then selectBest config pageText ms best
      else if matchPriority pageText m > snd best
      then selectBest config pageText ms (Some m, matchPriority pageText m)
      else selectBest config pageText ms best)"

text \<open>The loop over the pages for one pattern, and the loop over the patterns.\<close>

fun searchPages :: "SeismicParameter \<Rightarrow> rx \<Rightarrow> TextPage list \<Rightarrow> (TextPage \<times> rxResult) option" where
  "searchPages config pattern [] = None"
| "searchPages config pattern (page # rest) =
     (let found = matchAll True pattern (fullText page)
      in if length found > 0 then
           (case fst (selectBest config (fullText page) found (None, - 1)) of
              Some bestMatch \<Rightarrow> Some (page, bestMatch)
            | None \<Rightarrow> searchPages config pattern rest)
         else searchPages config pattern rest)"

fun searchPatterns ::
  "SeismicParameter \<Rightarrow> rx list \<Rightarrow> TextPage list \<Rightarrow> (TextPage \<times> rxResult) option" where
  "searchPatterns config [] pages = None"
| "searchPatterns config (pattern # rest) pages =
     (case searchPages config pattern pages of
        Some r \<Rightarrow> Some r
      | None \<Rightarrow> searchPatterns config rest pages)"

text \<open>
  The confidence is advisory; its sums \<open>0.5 + 0.3 + 0.2\<close> are modelled exactly.
\<close>

definition calculateConfidence :: "string \<Rightarrow> string \<Rightarrow> rat" where
  "calculateConfidence matchedText lbl =
     min (0.5
          + (if strIncludes (toLowerCase matchedText) (toLowerCase lbl) then 0.3 else 0)
          + (if strIncludes matchedText ''='' \<or> strIncludes matchedText '':'' then 0.2 else 0))
         1.0"

definition extractParameter :: "SeismicParameter \<Rightarrow> TextPage list \<Rightarrow> ExtractedValue" where
  "extractParameter config pages =
     (case searchPatterns config (patterns config) pages of
        None \<Rightarrow>
          \<lparr>label = label config, fullName = fullName config, type' = type' config,
           value' = None, pageNumber' = None, confidence = 0\<rparr>
      | Some (page, bestMatch) \<Rightarrow>
          \<lparr>label = label config, fullName = fullName config, type' = type' config,
           value' = map_option (\<lambda>rawValue. normalizeValue rawValue (type' config))
                      (capture bestMatch 1),
           pageNumber' = Some (pageNumber page),
           confidence = calculateConfidence (matched (fullText page) bestMatch) (label config)\<rparr>)"

definition extractSeismicValues :: "TextPage list \<Rightarrow> (string \<times> ExtractedValue) list" where
  "extractSeismicValues pages =
     map (\<lambda>entry. (fst entry, extractParameter (snd entry) pages)) SEISMIC_PATTERNS"

section \<open>Geotechnical verifier\<close>

text \<open>
  \<^item> \<^verbatim>\<open>/LATERAL\s+LOADS\s+SEISMIC:/gi\<close>
  \<^item> \<^verbatim>\<open>/SEISMIC:/gi\<close>
  \<^item> \<^verbatim>\<open>/GENERAL\s+NOTES?/gi\<close>
  \<^item> \<^verbatim>\<open>/GEN\.\s+NOTES?/gi\<close>
  \<^item> \<^verbatim>\<open>/STRUCTURAL\s+NOTES?/gi\<close>
  \<^item> \<^verbatim>\<open>/SEISMIC\s+DESIGN\s+CRITERIA/gi\<close>
\<close>

definition headingPatterns :: "rx list" where
  "headingPatterns =
     [Seqs [Str ''LATERAL'', Plus Space, Str ''LOADS'', Plus Space, Str ''SEISMIC:''],
      Str ''SEISMIC:'',
      Seqs [Str ''GENERAL'', Plus Space, Str ''NOTE'', Opt (Chr CHR ''S'')],
      Seqs [Str ''GEN.'', Plus Space, Str ''NOTE'', Opt (Chr CHR ''S'')],
      Seqs [Str ''STRUCTURAL'', Plus Space, Str ''NOTE'', Opt (Chr CHR ''S'')],
      Seqs [Str ''SEISMIC'', Plus Space, Str ''DESIGN'', Plus Space, Str ''CRITERIA'']]"

text \<open>
  \<^verbatim>\<open>String.prototype.match\<close> with a global expression returns the array of all matched
  strings, or \<^verbatim>\<open>null\<close>; that array has no \<^verbatim>\<open>index\<close> property, so \<^verbatim>\<open>match.index\<close> is
  \<^verbatim>\<open>undefined\<close>.
\<close>

record MatchArray =
  matchedStrings :: "string list"
  index :: "nat option"

definition matchGlobal :: "bool \<Rightarrow> rx \<Rightarrow> string \<Rightarrow> MatchArray option" where
  "matchGlobal ic r s =
     (case matchAll ic r s of
        [] \<Rightarrow> None
      | ms \<Rightarrow> Some \<lparr>matchedStrings = map (matched s) ms, index = None\<rparr>)"

text \<open>
  \<^verbatim>\<open>fullText.substring(startIndex, startIndex + 2000)\<close>: an \<^verbatim>\<open>undefined\<close> start and the
  \<^verbatim>\<open>NaN\<close> end computed from it both count as 0.
\<close>

definition notesWindow :: "string \<Rightarrow> nat option \<Rightarrow> string" where
  "notesWindow pageText startIndex =
     (case startIndex of
        None \<Rightarrow> substring pageText 0 0
      | Some i \<Rightarrow> substring pageText (int i) (int i + 2000))"

record NotesSection =
  notesPageNumber :: nat
  notesText :: string
  startIndex :: "nat option"
  fallback :: bool

fun headingOnPage :: "TextPage \<Rightarrow> rx list \<Rightarrow> NotesSection option" where
  "headingOnPage page [] = None"
| "headingOnPage page (pattern # rest) =
     (case matchGlobal True pattern (fullText page) of
        Some m \<Rightarrow>
          Some \<lparr>notesPageNumber = pageNumber page,
                notesText = notesWindow (fullText page) (index m),
                startIndex = index m, fallback = False\<rparr>
      | None \<Rightarrow> headingOnPage page rest)"

fun headingInPages :: "TextPage list \<Rightarrow> NotesSection option" where
  "headingInPages [] = None"
| "headingInPages (page # rest) =
     (case headingOnPage page headingPatterns of
        Some notes \<Rightarrow> Some notes
      | None \<Rightarrow> headingInPages rest)"

definition findGeneralNotesSection :: "TextPage list \<Rightarrow> NotesSection option" where
  "findGeneralNotesSection pages =
     (case headingInPages pages of
        Some notes \<Rightarrow> Some notes
      | None \<Rightarrow>
          (case pages of
             [] \<Rightarrow> None
           | first # _ \<Rightarrow>
               Some \<lparr>notesPageNumber = pageNumber first, notesText = fullText first,
                     startIndex = Some 0, fallback = True\<rparr>))"

text \<open>
  An entry of the lists \<^verbatim>\<open>matches\<close>, \<^verbatim>\<open>mismatches\<close> and \<^verbatim>\<open>missing\<close>: the parameter key,
  its label, the value of the report (\<^verbatim>\<open>value\<close> in a match, \<^verbatim>\<open>expectedValue\<close>
  otherwise), the value found in the notes (none in \<^verbatim>\<open>missing\<close>) and, once located, the
  highlight box \<^verbatim>\<open>x, y, width, height\<close>.
\<close>

record Finding =
  parameter :: string
  findingLabel :: string
  expectedValue :: string
  foundValue :: "string option"
  box :: "(rat \<times> rat \<times> rat \<times> rat) option"

record ComparisonResult =
  matches' :: "Finding list"
  mismatches' :: "Finding list"
  missing' :: "Finding list"

datatype jsError = ReferenceError string | TypeError string

fun errorMessage :: "jsError \<Rightarrow> string" where
  "errorMessage (ReferenceError m) = m"
| "errorMessage (TypeError m) = m"

text \<open>
  \<^verbatim>\<open>normalizeValue\<close> and \<^verbatim>\<open>valuesMatch\<close> on \<^verbatim>\<open>matches[0][1]\<close>, which is \<^verbatim>\<open>undefined\<close>
  (\<open>None\<close>) when group 1 took no part in the match: \<^verbatim>\<open>parseFloat(undefined)\<close> is
  \<^verbatim>\<open>NaN\<close>, so the numeric branches return the value itself and \<^verbatim>\<open>false\<close>; the other
  branches call a method of \<^verbatim>\<open>undefined\<close>, a TypeError.
\<close>

definition normalizeCaptured :: "string option \<Rightarrow> string \<Rightarrow> jsError + string option" where
  "normalizeCaptured raw ty =
     (case raw of
        Some v \<Rightarrow> Inr (Some (normalizeValue v ty))
      | None \<Rightarrow>
          if ty = ''numeric'' then Inr None
          else Inl (TypeError ''Cannot read properties of undefined''))"

definition valuesMatchFound :: "string \<Rightarrow> string option \<Rightarrow> string \<Rightarrow> jsError + bool" where
  "valuesMatchFound value1 found ty =
     (case found of
        Some value2 \<Rightarrow> Inr (valuesMatch value1 value2 ty)
      | None \<Rightarrow>
          if ty = ''numeric'' then Inr False
          else Inl (TypeError ''Cannot read properties of undefined''))"

text \<open>
  The search of one parameter in the notes: the first pattern with a match gives the
  found value; \<open>None\<close> is \<^verbatim>\<open>foundInNotes = false\<close>.
\<close>

fun findInNotes ::
  "SeismicParameter \<Rightarrow> string \<Rightarrow> rx list \<Rightarrow> (jsError + string option) option" where
  "findInNotes config notes [] = None"
| "findInNotes config notes (pattern # rest) =
     (case matchAll True pattern notes of
        [] \<Rightarrow> findInNotes config notes rest
      | m # _ \<Rightarrow> Some (normalizeCaptured (capture m 1) (type' config)))"

text \<open>
  \<^verbatim>\<open>compareValuesInNotes\<close>. The function body evaluates \<^verbatim>\<open>require('./geotechPatterns.js')\<close>
  when a parameter is found in the notes. The file is an ECMAScript module (it uses
  \<^verbatim>\<open>import\<close> and \<^verbatim>\<open>export\<close>), in whose scope \<^verbatim>\<open>require\<close> is not bound unless the
  host or bundler provides it: \<open>requireDefined\<close> says whether it does. When it does not,
  evaluating the identifier throws a ReferenceError.
\<close>

fun compareLoop ::
  "bool \<Rightarrow> string \<Rightarrow> (string \<times> ExtractedValue) list \<Rightarrow> ComparisonResult
     \<Rightarrow> jsError + ComparisonResult" where
  "compareLoop requireDefined notes [] results = Inr results"
| "compareLoop requireDefined notes (entry # rest) results =
     (case value' (snd entry) of
        None \<Rightarrow> compareLoop requireDefined notes rest results
      | Some expected \<Rightarrow>
          if expected = [] then compareLoop requireDefined notes rest results
          else
            (case map_of SEISMIC_PATTERNS (fst entry) of
               None \<Rightarrow> Inl (TypeError ''Cannot read properties of undefined'')
             | Some config \<Rightarrow>
                 (case findInNotes config notes (patterns config) of
                    Some (Inl e) \<Rightarrow> Inl e
                  | Some (Inr found) \<Rightarrow>
                      if \<not> requireDefined then Inl (ReferenceError ''require is not defined'')
                      else
                        (case valuesMatchFound expected found (type' (snd entry)) of
                           Inl e \<Rightarrow> Inl e
                         | Inr True \<Rightarrow>
                             compareLoop requireDefined notes rest
                               (results\<lparr>matches' := matches' results @
                                  [\<lparr>parameter = fst entry, findingLabel = label (snd entry),
                                    expectedValue = expected, foundValue = found,
                                    box = None\<rparr>]\<rparr>)
                         | Inr False \<Rightarrow>
                             compareLoop requireDefined notes rest
                               (results\<lparr>mismatches' := mismatches' results @
                                  [\<lparr>parameter = fst entry, findingLabel = label (snd entry),
                                    expectedValue = expected, foundValue = found,
                                    box = None\<rparr>]\<rparr>))
                  | None \<Rightarrow>
                      compareLoop requireDefined notes rest
                        (results\<lparr>missing' := missing' results @
                           [\<lparr>parameter = fst entry, findingLabel = label (snd entry),
                             expectedValue = expected, foundValue = None, box = None\<rparr>]\<rparr>))))"

definition compareValuesInNotes ::
  "bool \<Rightarrow> string \<Rightarrow> (string \<times> ExtractedValue) list \<Rightarrow> jsError + ComparisonResult" where
  "compareValuesInNotes requireDefined notes expectedValues =
     compareLoop requireDefined notes expectedValues
       \<lparr>matches' = [], mismatches' = [], missing' = []\<rparr>"

text \<open>\<^verbatim>\<open>findParameterPosition\<close>: the search terms of a parameter.\<close>

definition searchTerms :: "string \<Rightarrow> string list" where
  "searchTerms parameterKey =
     (if parameterKey = ''Sds'' then [''SDS'', ''S_DS'', ''S DS'']
      else if parameterKey = ''Sd1'' then [''SD1'', ''S_D1'', ''S D1'']
      else if parameterKey = ''Sms'' then [''SMS'', ''S_MS'', ''S MS'']
      else if parameterKey = ''Sm1'' then [''SM1'', ''S_M1'', ''S M1'']
      else if parameterKey = ''Ss'' then [''SS'', ''S_S'', ''S S'', ''Ss'']
      else if parameterKey = ''S1'' then [''S1'', ''S_1'', ''S 1'']
      else if parameterKey = ''Fa'' then [''FA'', ''F_A'', ''F A'']
      else if parameterKey = ''Fv'' then [''FV'', ''F_V'', ''F V'']
      else if parameterKey = ''siteClass'' then [''SITE CLASS'', ''Site Class'', ''SITE'', ''CLASS'']
      else if parameterKey = ''riskCategory'' then [''RISK CATEGORY'', ''Risk Category'', ''RISK'']
      else if parameterKey = ''seismicDesignCategory''
      then [''SEISMIC DESIGN CATEGORY'', ''Seismic Design Category'', ''SDC'', ''CATEGORY'']
      else [])"

text \<open>\<^verbatim>\<open>/[\d\.]+|[A-F]|I{1,3}|IV/\<close>\<close>

definition valuePattern :: rx where
  "valuePattern =
     Alt (Plus (Class True [(CHR ''0'', CHR ''9''), Only CHR ''.'']))
       (Alt (Class True [(CHR ''A'', CHR ''F'')])
          (Alt (Between 1 3 (Chr CHR ''I'')) (Str ''IV'')))"

text \<open>
  The lookahead over the next items (\<open>j < i + 10\<close>); the state is \<^verbatim>\<open>maxX\<close> and
  \<^verbatim>\<open>combinedHeight\<close>.
\<close>

fun lookahead :: "PositionedText list \<Rightarrow> rat \<times> rat \<Rightarrow> rat \<times> rat" where
  "lookahead [] st = st"
| "lookahead (nextItem # rest) st =
     (if rxTest False valuePattern (ptText nextItem)
      then lookahead rest
             (let rightEdge = ptX nextItem + ptWidth nextItem
              in (if rightEdge > fst st then rightEdge else fst st,
                  max (snd st) (ptHeight nextItem)))
      else lookahead rest st)"

text \<open>The loop over the items for one search term; \<open>rest\<close> are the items from index \<open>i\<close>.\<close>

fun positionOfTerm :: "string \<Rightarrow> PositionedText list \<Rightarrow> (rat \<times> rat \<times> rat \<times> rat) option" where
  "positionOfTerm searchTerm [] = None"
| "positionOfTerm searchTerm (item # rest) =
     (if strIncludes (toUpperCase (ptText item)) (toUpperCase searchTerm)
      then
        (case lookahead (take 9 rest) (ptX item + ptWidth item, ptHeight item) of
           (rightmost, combinedHeight) \<Rightarrow>
             Some (ptX item, ptY item, max (rightmost - ptX item) 100, max combinedHeight 20))
      else positionOfTerm searchTerm rest)"

fun positionOfTerms :: "string list \<Rightarrow> PositionedText list \<Rightarrow> (rat \<times> rat \<times> rat \<times> rat) option" where
  "positionOfTerms [] its = None"
| "positionOfTerms (searchTerm # rest) its =
     (case positionOfTerm searchTerm its of
        Some position \<Rightarrow> Some position
      | None \<Rightarrow> positionOfTerms rest its)"

definition findParameterPosition ::
  "PositionedText list \<Rightarrow> string \<Rightarrow> (rat \<times> rat \<times> rat \<times> rat) option" where
  "findParameterPosition its parameterKey = positionOfTerms (searchTerms parameterKey) its"

text \<open>
  The \<^verbatim>\<open>map(...).filter(Boolean)\<close> that adds a box scaled by \<^verbatim>\<open>SCALE = 3.0\<close> to the entries
  whose position is found and drops the others.
\<close>

definition withLocations :: "PositionedText list \<Rightarrow> Finding list \<Rightarrow> Finding list" where
  "withLocations its entries =
     List.map_filter
       (\<lambda>entry. case findParameterPosition its (parameter entry) of
                  Some (px, py, w, h) \<Rightarrow> Some (entry\<lparr>box := Some (px * 3, py * 3, w * 3, h * 3)\<rparr>)
                | None \<Rightarrow> None)
       entries"

record GeotechData =
  extractedValues :: "(string \<times> ExtractedValue) list option"

record GeotechResult = Verdict +
  matches :: "Finding list"
  mismatches :: "Finding list"
  missing :: "Finding list"
  notesPage :: "nat option"

text \<open>The result of the early returns and of the \<^verbatim>\<open>catch\<close> branch.\<close>

definition emptyResult :: "string \<Rightarrow> GeotechResult" where
  "emptyResult msg =
     \<lparr>detected = False, count = 0, message = msg,
      matches = [], mismatches = [], missing = [], notesPage = None\<rparr>"

text \<open>The body of the \<^verbatim>\<open>try\<close> block; an exception is the result \<open>Inl\<close>.\<close>

definition verification ::
  "bool \<Rightarrow> (string \<times> ExtractedValue) list \<Rightarrow> TextPage list \<Rightarrow> jsError + GeotechResult" where
  "verification requireDefined expectedValues pdfPages =
     (case findGeneralNotesSection pdfPages of
        None \<Rightarrow> Inr (emptyResult ''GENERAL NOTES section not found in drawing'')
      | Some notesSection \<Rightarrow>
          (case compareValuesInNotes requireDefined (notesText notesSection) expectedValues of
             Inl e \<Rightarrow> Inl e
           | Inr comparison \<Rightarrow>
               (let totalIssues = length (mismatches' comparison) + length (missing' comparison);
                    pdfTextItems =
                      (case pdfPages of
                         [] \<Rightarrow> []
                       | first # _ \<Rightarrow> (case items first of Some its \<Rightarrow> its | None \<Rightarrow> []))
                in Inr \<lparr>detected = totalIssues > 0,
                        count = totalIssues,
                        message =
                          (if totalIssues > 0
                           then ''Found '' @ showNat (length (mismatches' comparison))
                                @ '' mismatch(es) and ''
                                @ showNat (length (missing' comparison)) @ '' missing value(s)''
                           else ''All '' @ showNat (length (matches' comparison))
                                @ '' seismic value(s) verified successfully''),
                        matches = withLocations pdfTextItems (matches' comparison),
                        mismatches = withLocations pdfTextItems (mismatches' comparison),
                        missing = missing' comparison,
                        notesPage = Some (notesPageNumber notesSection)\<rparr>)))"

text \<open>
  \<^verbatim>\<open>detectGeotechMismatches(imageData, geotechData, pdfPages, onProgress)\<close>. The result is
  \<open>Inr\<close> of the object the promise resolves to, or \<open>Inl\<close> of an exception that leaves
  the function.
\<close>

definition detectGeotechMismatches ::
  "bool \<Rightarrow> GeotechData option \<Rightarrow> TextPage list option \<Rightarrow> jsError + GeotechResult" where
  "detectGeotechMismatches requireDefined geotechData pdfPages =
     (case (case geotechData of None \<Rightarrow> None | Some g \<Rightarrow> extractedValues g) of
        None \<Rightarrow> Inr (emptyResult ''No geotechnical report data available for verification'')
      | Some expectedValues \<Rightarrow>
          (case pdfPages of
             None \<Rightarrow>
               Inr (emptyResult ''Text verification requires PDF upload (images not supported)'')
           | Some pages \<Rightarrow>
               if length pages = 0
               then Inr (emptyResult
                           ''Text verification requires PDF upload (images not supported)'')
               else
                 (case verification requireDefined expectedValues pages of
                    Inr result \<Rightarrow> Inr result
                  | Inl error \<Rightarrow>
                      Inr (emptyResult (''Verification error: '' @ errorMessage error)))))"

text \<open>Extracted values with one entry, for the examples of the verifier.\<close>

definition sdsOnly :: "(string \<times> ExtractedValue) list" where
  "sdsOnly =
     [(''Sds'', \<lparr>label = ''Sds'', fullName = ''Design Spectral Response Acceleration (Short Period)'',
                type' = ''numeric'', value' = Some ''0.95'', pageNumber' = Some 4,
                confidence = 1\<rparr>)]"

chapter \<open>Properties\<close>

section \<open>Detection results\<close>

text \<open>
  C1. Every detection result that the red-element, highlight, missing-reference and
  overlapping-text analyzers return, on any input, has \<open>detected\<close> true exactly when
  \<open>count > 0\<close>, and \<open>count\<close> equal to the length of \<open>locations\<close>. (The red-element
  analyzer returns no result when the image fails to load, and the highlight analyzer
  none either.)
\<close>

theorem detection_result_invariant:
  "(\<forall>r. detectRedElements img = Inr r \<longrightarrow>
        detected r = (count r > 0) \<and> count r = length (locations r)) \<and>
   (\<forall>r. detectHighlights img = Some r \<longrightarrow>
        detected r = (count r > 0) \<and> count r = length (locations r)) \<and>
   detected (detectNoRefs pdfPage) = (count (detectNoRefs pdfPage) > 0) \<and>
   count (detectNoRefs pdfPage) = length (locations (detectNoRefs pdfPage)) \<and>
   detected (detectOverlappingText imageData pdfPage)
     = (count (detectOverlappingText imageData pdfPage) > 0) \<and>
   count (detectOverlappingText imageData pdfPage)
     = length (locations (detectOverlappingText imageData pdfPage))"
proof (intro conjI allI impI)
  fix r assume "detectRedElements img = Inr r"
  then show "detected r = (count r > 0)" and "count r = length (locations r)"
    by (auto simp: detectRedElements_def Let_def split: option.splits)
next
  fix r assume "detectHighlights img = Some r"
  then show "detected r = (count r > 0)" and "count r = length (locations r)"
    by (auto simp: detectHighlights_def Let_def split: option.splits)
qed (simp_all add: detectNoRefs_def detectOverlappingText_def Let_def)

theorem detection_result_invariant_witness:
  "detectRedElements (Some redPixel)
     = Inr \<lparr>detected = False, count = 0, message = ''No red elements detected'', locations = []\<rparr> \<and>
   detectHighlights (Some redPixel)
     = Some \<lparr>detected = False, count = 0, message = ''No highlights detected'', locations = []\<rparr> \<and>
   length (locations (detectNoRefs (Some noRefPage))) = 3 \<and>
   count (detectNoRefs (Some noRefPage)) = 3 \<and>
   detected (detectNoRefs (Some noRefPage)) \<and>
   length (locations (detectOverlappingText redPixel (Some bubblePage))) = 1 \<and>
   count (detectOverlappingText redPixel (Some bubblePage)) = 1 \<and>
   detected (detectOverlappingText redPixel (Some bubblePage))"
proof -
  have red: "detectRedElements (Some redPixel)
     = Inr \<lparr>detected = False, count = 0, message = ''No red elements detected'', locations = []\<rparr>"
    using example_red by (simp add: detectRedElements_def)
  have hl: "detectHighlights (Some redPixel)
     = Some \<lparr>detected = False, count = 0, message = ''No highlights detected'', locations = []\<rparr>"
    using example_highlights by (simp add: detectHighlights_def)
  have nr: "length (locations (detectNoRefs (Some noRefPage))) = 3"
    using example_noRefs by (simp add: detectNoRefs_def suppliedItems_def noRefPage_def)
  have ov: "length (locations (detectOverlappingText redPixel (Some bubblePage))) = 1"
    using example_overlaps example_pixel_overlaps by (simp add: detectOverlappingText_def suppliedItems_def bubblePage_def)
  note inv = detection_result_invariant [of "Some redPixel" "Some noRefPage" redPixel]
  note inv' = detection_result_invariant [of "Some redPixel" "Some bubblePage" redPixel]
  from inv have "count (detectNoRefs (Some noRefPage)) = 3" using nr by simp
  moreover from inv have "detected (detectNoRefs (Some noRefPage))" using nr by simp
  moreover from inv' have "count (detectOverlappingText redPixel (Some bubblePage)) = 1"
    using ov by simp
  moreover from inv' have "detected (detectOverlappingText redPixel (Some bubblePage))"
    using ov by simp
  ultimately show ?thesis using red hl nr ov by simp
qed

section \<open>Missing-reference analyzer\<close>



section \<open>Overlapping-text analyzer\<close>



text \<open>
  C6. For every input, \<open>detectOverlappingText\<close> returns as locations the regions of the
  PDF-text method followed by the merged regions of the pixel method, with \<open>count\<close> the
  sum of their lengths; nothing is removed across the methods (a region occurs in the
  result as often as in both lists together); and when \<open>count > 0\<close> the message gives
  the total and the count of each method.
\<close>

theorem overlapping_text_union:
  "locations (detectOverlappingText imageData pdfPage)
     = (case suppliedItems pdfPage of None \<Rightarrow> [] | Some its \<Rightarrow> detectOverlapsFromPDF pdfPage)
       @ findOverlappingText (data imageData) (imageWidth imageData) (imageHeight imageData) \<and>
   count (detectOverlappingText imageData pdfPage)
     = length (case suppliedItems pdfPage of None \<Rightarrow> [] | Some its \<Rightarrow> detectOverlapsFromPDF pdfPage)
       + length (findOverlappingText (data imageData) (imageWidth imageData) (imageHeight imageData)) \<and>
   (\<forall>r. count_list (locations (detectOverlappingText imageData pdfPage)) r
         = count_list (case suppliedItems pdfPage of None \<Rightarrow> []
                       | Some its \<Rightarrow> detectOverlapsFromPDF pdfPage) r
           + count_list (findOverlappingText (data imageData) (imageWidth imageData)
                           (imageHeight imageData)) r) \<and>
   (count (detectOverlappingText imageData pdfPage) > 0 \<longrightarrow>
      message (detectOverlappingText imageData pdfPage)
        = ''Found '' @ showNat (count (detectOverlappingText imageData pdfPage))
          @ '' overlapping text region(s) (''
          @ showNat (length (case suppliedItems pdfPage of None \<Rightarrow> []
                             | Some its \<Rightarrow> detectOverlapsFromPDF pdfPage))
          @ '' PDF, ''
          @ showNat (length (findOverlappingText (data imageData) (imageWidth imageData)
                               (imageHeight imageData)))
          @ '' pixel)'')"
  by (cases "suppliedItems pdfPage") (simp_all add: detectOverlappingText_def Let_def)

theorem overlapping_text_union_witness:
  "detectOverlappingText redPixel (Some bubblePage)
     = \<lparr>detected = True, count = 1,
        message = ''Found 1 overlapping text region(s) (1 PDF, 0 pixel)'',
        locations = [\<lparr>x = 960, y = 846, width = 60, height = 18,
                      detectionMethod = Some ''pdf-text'', isCanvasCoords = Some True,
                      pixelCount = 1080, text1 = Some ''NOTE A1'', text2 = Some ''SEE PLAN''\<rparr>]\<rparr>"
proof -
  have s: "suppliedItems (Some bubblePage) \<noteq> None" by (simp add: suppliedItems_def bubblePage_def)
  have c: "count (detectOverlappingText redPixel (Some bubblePage)) = 1"
    using overlapping_text_union [of redPixel "Some bubblePage"] s example_overlaps example_pixel_overlaps by auto
  then have "message (detectOverlappingText redPixel (Some bubblePage))
        = ''Found 1 overlapping text region(s) (1 PDF, 0 pixel)''"
    using overlapping_text_union [of redPixel "Some bubblePage"] s example_overlaps example_pixel_overlaps
    by (auto simp: showNat.simps)
  moreover have "locations (detectOverlappingText redPixel (Some bubblePage))
     = [\<lparr>x = 960, y = 846, width = 60, height = 18,
                      detectionMethod = Some ''pdf-text'', isCanvasCoords = Some True,
                      pixelCount = 1080, text1 = Some ''NOTE A1'', text2 = Some ''SEE PLAN''\<rparr>]"
    using overlapping_text_union [of redPixel "Some bubblePage"] s example_overlaps example_pixel_overlaps by auto
  moreover have "detected (detectOverlappingText redPixel (Some bubblePage))"
    using example_overlaps example_pixel_overlaps s by (simp add: detectOverlappingText_def)
  ultimately show ?thesis using c
    by (cases "detectOverlappingText redPixel (Some bubblePage)") simp
qed

section \<open>Region merger\<close>

text \<open>
  C7. The region merger is idempotent: for each of the three mergers (thresholds 15, 20
  and 10) and every list \<open>S\<close> of boxes, merging the merged list gives the merged list
  again; and in the output of one run no two distinct boxes are near each other, that
  is have both their horizontal and vertical gaps (clamped at zero) within the threshold.
\<close>

theorem merger_idempotent:
  "mergeNearbyElements (mergeNearbyElements S) = mergeNearbyElements S \<and>
   mergeNearbyHighlights (mergeNearbyHighlights S) = mergeNearbyHighlights S \<and>
   mergeNearbyRegions (mergeNearbyRegions S) = mergeNearbyRegions S \<and>
   (\<forall>i j. i < length (mergeNearbyElements S) \<and> j < length (mergeNearbyElements S) \<and> i \<noteq> j
      \<longrightarrow> \<not> nearby 15 (mergeNearbyElements S ! i) (mergeNearbyElements S ! j)) \<and>
   (\<forall>i j. i < length (mergeNearbyHighlights S) \<and> j < length (mergeNearbyHighlights S) \<and> i \<noteq> j
      \<longrightarrow> \<not> nearby 20 (mergeNearbyHighlights S ! i) (mergeNearbyHighlights S ! j)) \<and>
   (\<forall>i j. i < length (mergeNearbyRegions S) \<and> j < length (mergeNearbyRegions S) \<and> i \<noteq> j
      \<longrightarrow> \<not> nearby 10 (mergeNearbyRegions S ! i) (mergeNearbyRegions S ! j))"
  unfolding mergeNearbyElements_def mergeNearbyHighlights_def mergeNearbyRegions_def
  by (intro conjI allI impI mergeNearby_idem separated_apart [OF mergeNearby_separated]) simp_all

theorem merger_idempotent_witness:
  "mergeNearbyElements
     [plainRegion 0 0 10 10 60, plainRegion 100 100 5 5 80, plainRegion 20 0 10 10 70]
     = [plainRegion 0 0 30 10 130, plainRegion 100 100 5 5 80] \<and>
   mergeNearbyElements [plainRegion 0 0 30 10 130, plainRegion 100 100 5 5 80]
     = [plainRegion 0 0 30 10 130, plainRegion 100 100 5 5 80] \<and>
   \<not> nearby 15 (plainRegion 0 0 30 10 130) (plainRegion 100 100 5 5 80)"
proof -
  let ?S = "[plainRegion 0 0 10 10 60, plainRegion 100 100 5 5 80, plainRegion 20 0 10 10 70]"
  have e: "mergeNearbyElements ?S = [plainRegion 0 0 30 10 130, plainRegion 100 100 5 5 80]"
    by (simp add: mergeNearbyElements_def mergeNearby_def mergeLoop.simps nearby_def
        horizontalDistance_def verticalDistance_def mergeTwo_def plainRegion_def)
  have i: "mergeNearbyElements (mergeNearbyElements ?S) = mergeNearbyElements ?S"
    using merger_idempotent [of ?S] by (rule conjunct1)
  have "\<forall>i j. i < length (mergeNearbyElements ?S) \<and> j < length (mergeNearbyElements ?S) \<and> i \<noteq> j
      \<longrightarrow> \<not> nearby 15 (mergeNearbyElements ?S ! i) (mergeNearbyElements ?S ! j)"
    using merger_idempotent [of ?S] by (elim conjE)
  then have "0 < length (mergeNearbyElements ?S) \<and> 1 < length (mergeNearbyElements ?S)
         \<and> (0::nat) \<noteq> 1
         \<longrightarrow> \<not> nearby 15 (mergeNearbyElements ?S ! 0) (mergeNearbyElements ?S ! 1)"
    by (elim allE)
  then have "\<not> nearby 15 (plainRegion 0 0 30 10 130) (plainRegion 100 100 5 5 80)"
    unfolding e by simp
  then show ?thesis using i e by simp
qed

text \<open>
  C8. The region merger is order-independent: for every list of boxes and every
  permutation of it, each of the three mergers returns the same collection of boxes (the
  same union boxes with the same summed pixel counts), up to the order of the output list.
\<close>

theorem merger_order_independent:
  "mset S = mset S' \<Longrightarrow>
     mset (mergeNearbyElements S) = mset (mergeNearbyElements S') \<and>
     mset (mergeNearbyHighlights S) = mset (mergeNearbyHighlights S') \<and>
     mset (mergeNearbyRegions S) = mset (mergeNearbyRegions S')"
  unfolding mergeNearbyElements_def mergeNearbyHighlights_def mergeNearbyRegions_def
  by (intro conjI mergeNearby_mset_cong)

theorem merger_order_independent_witness:
  "mset [plainRegion 0 0 10 10 60, plainRegion 100 100 5 5 80, plainRegion 20 0 10 10 70]
     = mset [plainRegion 20 0 10 10 70, plainRegion 0 0 10 10 60, plainRegion 100 100 5 5 80] \<and>
   mset (mergeNearbyElements
      [plainRegion 0 0 10 10 60, plainRegion 100 100 5 5 80, plainRegion 20 0 10 10 70])
     = mset (mergeNearbyElements
      [plainRegion 20 0 10 10 70, plainRegion 0 0 10 10 60, plainRegion 100 100 5 5 80]) \<and>
   mergeNearbyElements
      [plainRegion 20 0 10 10 70, plainRegion 0 0 10 10 60, plainRegion 100 100 5 5 80]
     = [plainRegion 0 0 30 10 130, plainRegion 100 100 5 5 80]"
proof -
  let ?S = "[plainRegion 0 0 10 10 60, plainRegion 100 100 5 5 80, plainRegion 20 0 10 10 70]"
  let ?S' = "[plainRegion 20 0 10 10 70, plainRegion 0 0 10 10 60, plainRegion 100 100 5 5 80]"
  have p: "mset ?S = mset ?S'" by (simp add: add_mset_commute)
  have e: "mergeNearbyElements ?S' = [plainRegion 0 0 30 10 130, plainRegion 100 100 5 5 80]"
    by (simp add: mergeNearbyElements_def mergeNearby_def mergeLoop.simps nearby_def
        horizontalDistance_def verticalDistance_def mergeTwo_def plainRegion_def)
  have "mset (mergeNearbyElements ?S) = mset (mergeNearbyElements ?S')"
    using merger_order_independent [OF p] by (rule conjunct1)
  with p e show ?thesis by (intro conjI)
qed

section \<open>Comparison of values\<close>

lemma parse_0770: "parseFloat ''0.770'' = Fin (1733885856537641 / 2251799813685248)"
  by code_simp

lemma parse_0775: "parseFloat ''0.775'' = Fin (6980579422424269 / 9007199254740992)"
  by code_simp

lemma literal_0005: "literal 0.005 = Fin (5764607523034235 / 1152921504606846976)"
  by code_simp

lemma sub_0770_0775:
  "numSub (Fin (1733885856537641 / 2251799813685248)) (Fin (6980579422424269 / 9007199254740992))
     = Fin (- (45035996273705 / 9007199254740992))"
  by code_simp

lemma valuesMatch_category:
  "valuesMatch a b ''category'' = (trim (toUpperCase a) = trim (toUpperCase b))"
  by (simp add: valuesMatch_def)

lemma valuesMatch_numeric:
  "valuesMatch a b ''numeric''
     = (parseFloat a \<noteq> NaN \<and> parseFloat b \<noteq> NaN \<and>
        numLessEq (numAbs (numSub (parseFloat a) (parseFloat b))) (literal 0.005))"
  by (auto simp: valuesMatch_def Let_def)

text \<open>
  C3. \<open>valuesMatch\<close> is meant to accept two numeric values that differ by at most 0.005,
  so that \<open>0.770\<close> and \<open>0.775\<close> match while \<open>0.77\<close> and \<open>0.78\<close> do not, and to compare
  categories without regard to case. The category comparison and the rejection of
  \<open>0.77\<close> against \<open>0.78\<close> are as intended, but \<open>valuesMatch\<close> rejects \<open>0.770\<close>
  against \<open>0.775\<close>: the doubles nearest to the two values differ by
  \<open>45035996273705 / 2 ^ 53\<close>, which is more than the double nearest to \<open>0.005\<close>,
  \<open>5764607523034235 / 2 ^ 60\<close>, so the comparison \<open>diff <= 0.005\<close> of the source fails
  at the boundary of the tolerance.
\<close>

theorem values_match_boundary:
  "valuesMatch ''0.770'' ''0.775'' ''numeric'' = False \<and>
   parseFloat ''0.770'' = Fin (1733885856537641 / 2251799813685248) \<and>
   parseFloat ''0.775'' = Fin (6980579422424269 / 9007199254740992) \<and>
   numSub (parseFloat ''0.770'') (parseFloat ''0.775'') = Fin (- (45035996273705 / 9007199254740992)) \<and>
   literal 0.005 = Fin (5764607523034235 / 1152921504606846976) \<and>
   (45035996273705 / 9007199254740992 :: rat) > 5764607523034235 / 1152921504606846976 \<and>
   valuesMatch ''0.77'' ''0.78'' ''numeric'' = False \<and>
   valuesMatch ''d'' ''D'' ''category'' = True \<and>
   valuesMatch ''D'' ''E'' ''category'' = False"
proof -
  have s: "numSub (parseFloat ''0.770'') (parseFloat ''0.775'')
             = Fin (- (45035996273705 / 9007199254740992))"
    by (simp only: parse_0770 parse_0775 sub_0770_0775)
  have c: "(45035996273705 / 9007199254740992 :: rat) > 5764607523034235 / 1152921504606846976"
    by simp
  have m1: "valuesMatch ''0.770'' ''0.775'' ''numeric'' = False"
    by code_simp
  have m2: "valuesMatch ''0.77'' ''0.78'' ''numeric'' = False"
    by code_simp
  have m3: "valuesMatch ''d'' ''D'' ''category'' = True" by code_simp
  have m4: "valuesMatch ''D'' ''E'' ''category'' = False" by code_simp
  from m1 parse_0770 parse_0775 s literal_0005 c m2 m3 m4 show ?thesis by (intro conjI)
qed

section \<open>Geotechnical verifier\<close>

text \<open>
  C9. \<open>detectGeotechMismatches\<close> never throws; called with missing geotech data
  (\<open>geotechData\<close> null or without \<open>extractedValues\<close>) it returns the result with
  \<open>detected = False\<close>, \<open>count = 0\<close>, empty \<open>matches\<close>, \<open>mismatches\<close> and \<open>missing\<close> and
  the message that no geotechnical report data is available; called with geotech data
  but with \<open>pdfPages\<close> null or empty it returns such a result with the message that text
  verification requires a PDF upload.
\<close>

theorem verification_preconditions:
  "((geotechData = None \<or> (\<exists>g. geotechData = Some g \<and> extractedValues g = None)) \<longrightarrow>
      detectGeotechMismatches requireDefined geotechData pdfPages
        = Inr \<lparr>detected = False, count = 0,
               message = ''No geotechnical report data available for verification'',
               matches = [], mismatches = [], missing = [], notesPage = None\<rparr>) \<and>
   ((\<exists>g ev. geotechData = Some g \<and> extractedValues g = Some ev) \<and>
    (pdfPages = None \<or> pdfPages = Some []) \<longrightarrow>
      detectGeotechMismatches requireDefined geotechData pdfPages
        = Inr \<lparr>detected = False, count = 0,
               message = ''Text verification requires PDF upload (images not supported)'',
               matches = [], mismatches = [], missing = [], notesPage = None\<rparr>) \<and>
   (\<exists>r. detectGeotechMismatches requireDefined geotechData pdfPages = Inr r)"
proof (intro conjI impI)
  assume "geotechData = None \<or> (\<exists>g. geotechData = Some g \<and> extractedValues g = None)"
  then show "detectGeotechMismatches requireDefined geotechData pdfPages
        = Inr \<lparr>detected = False, count = 0,
               message = ''No geotechnical report data available for verification'',
               matches = [], mismatches = [], missing = [], notesPage = None\<rparr>"
    by (auto simp: detectGeotechMismatches_def emptyResult_def)
next
  assume "(\<exists>g ev. geotechData = Some g \<and> extractedValues g = Some ev) \<and>
    (pdfPages = None \<or> pdfPages = Some [])"
  then show "detectGeotechMismatches requireDefined geotechData pdfPages
        = Inr \<lparr>detected = False, count = 0,
               message = ''Text verification requires PDF upload (images not supported)'',
               matches = [], mismatches = [], missing = [], notesPage = None\<rparr>"
    by (auto simp: detectGeotechMismatches_def emptyResult_def)
next
  show "\<exists>r. detectGeotechMismatches requireDefined geotechData pdfPages = Inr r"
    by (simp add: detectGeotechMismatches_def split: option.splits sum.splits)
qed

theorem verification_preconditions_witness:
  "detectGeotechMismatches False None (Some [\<lparr>pageNumber = 1, fullText = ''SDS = 0.95'', items = None\<rparr>])
     = Inr \<lparr>detected = False, count = 0,
            message = ''No geotechnical report data available for verification'',
            matches = [], mismatches = [], missing = [], notesPage = None\<rparr> \<and>
   detectGeotechMismatches False (Some \<lparr>extractedValues = None\<rparr>) None
     = Inr \<lparr>detected = False, count = 0,
            message = ''No geotechnical report data available for verification'',
            matches = [], mismatches = [], missing = [], notesPage = None\<rparr> \<and>
   detectGeotechMismatches False (Some \<lparr>extractedValues = Some sdsOnly\<rparr>) None
     = Inr \<lparr>detected = False, count = 0,
            message = ''Text verification requires PDF upload (images not supported)'',
            matches = [], mismatches = [], missing = [], notesPage = None\<rparr> \<and>
   detectGeotechMismatches False (Some \<lparr>extractedValues = Some sdsOnly\<rparr>) (Some [])
     = Inr \<lparr>detected = False, count = 0,
            message = ''Text verification requires PDF upload (images not supported)'',
            matches = [], mismatches = [], missing = [], notesPage = None\<rparr>"
proof -
  have a: "detectGeotechMismatches False None
       (Some [\<lparr>pageNumber = 1, fullText = ''SDS = 0.95'', items = None\<rparr>])
     = Inr \<lparr>detected = False, count = 0,
            message = ''No geotechnical report data available for verification'',
            matches = [], mismatches = [], missing = [], notesPage = None\<rparr>"
    using verification_preconditions
      [where geotechData = None and requireDefined = False
         and pdfPages = "Some [\<lparr>pageNumber = 1, fullText = ''SDS = 0.95'', items = None\<rparr>]"]
    by simp
  have b: "detectGeotechMismatches False (Some \<lparr>extractedValues = None\<rparr>) None
     = Inr \<lparr>detected = False, count = 0,
            message = ''No geotechnical report data available for verification'',
            matches = [], mismatches = [], missing = [], notesPage = None\<rparr>"
    using verification_preconditions
      [where geotechData = "Some \<lparr>extractedValues = None\<rparr>" and requireDefined = False
         and pdfPages = None]
    by simp
  have c: "detectGeotechMismatches False (Some \<lparr>extractedValues = Some sdsOnly\<rparr>) None
     = Inr \<lparr>detected = False, count = 0,
            message = ''Text verification requires PDF upload (images not supported)'',
            matches = [], mismatches = [], missing = [], notesPage = None\<rparr>"
    using verification_preconditions
      [where geotechData = "Some \<lparr>extractedValues = Some sdsOnly\<rparr>"
         and requireDefined = False and pdfPages = None]
    by simp
  have d: "detectGeotechMismatches False (Some \<lparr>extractedValues = Some sdsOnly\<rparr>) (Some [])
     = Inr \<lparr>detected = False, count = 0,
            message = ''Text verification requires PDF upload (images not supported)'',
            matches = [], mismatches = [], missing = [], notesPage = None\<rparr>"
    using verification_preconditions
      [where geotechData = "Some \<lparr>extractedValues = Some sdsOnly\<rparr>"
         and requireDefined = False and pdfPages = "Some []"]
    by simp
  from a b c d show ?thesis by (intro conjI)
qed

end
